theory Spec2Isabelle
  imports Complex_Main "HOL-Library.Product_Lexorder" "HOL-Library.Multiset"
begin

section \<open>Conventions of the embedding\<close>

text \<open>
  The models (\<^verbatim>\<open>src/models/categoria.py\<close>, \<^verbatim>\<open>lancamento.py\<close>, \<^verbatim>\<open>alerta.py\<close>,
  \<^verbatim>\<open>orcamento.py\<close>) are embedded as records and functions over them.

  \<^item> A Python \<^verbatim>\<open>float\<close> amount is a \<^typ>\<open>real\<close>: rounding, infinities and NaN are not
    modelled.
  \<^item> A Python \<^verbatim>\<open>str\<close> is a \<^typ>\<open>string\<close> read as a list of code points below 256
    (Latin-1); \<^verbatim>\<open>str.lower\<close> and \<^verbatim>\<open>str.strip\<close> are modelled on that whole range.
  \<^item> A \<^verbatim>\<open>datetime.date\<close> is the triple (year, month, day), compared lexicographically as
    Python compares dates.
  \<^item> An exception is a value of type \<open>error\<close>. A method that mutates \<^verbatim>\<open>self\<close> returns the
    object as it is when the method returns or raises, next to the result.
  \<^item> \<^verbatim>\<open>isinstance\<close> checks on arguments are discharged by the types of the model; the
    \<^verbatim>\<open>TypeError\<close> branches they guard have no counterpart.
  \<^item> \<^verbatim>\<open>uuid.uuid4()\<close> and \<^verbatim>\<open>datetime.now()\<close> are inputs: every constructor takes the
    value that the call would draw.
  \<^item> A \<^verbatim>\<open>dict\<close> is an association list in insertion order where a division runs over its
    items, and a map otherwise.
\<close>

datatype error =
    NomeObrigatorio          \<comment> \<open>ValueError: Nome da categoria e obrigatorio\<close>
  | NomeCurto                \<comment> \<open>ValueError: pelo menos 2 caracteres\<close>
  | ReceitaComLimite         \<comment> \<open>ValueError: Categorias de receita nao podem ter limite\<close>
  | LimiteNaoPositivo        \<comment> \<open>ValueError: Limite mensal deve ser maior que zero\<close>
  | ValorNaoPositivo         \<comment> \<open>ValueError: Valor do lancamento deve ser maior que zero\<close>
  | CategoriaIncompativel    \<comment> \<open>ValueError: Receitas/Despesas devem ter categoria do tipo ...\<close>
  | DescricaoObrigatoria     \<comment> \<open>ValueError: Descricao e obrigatoria\<close>
  | MesInvalido              \<comment> \<open>ValueError: Mes deve ser um inteiro entre 1 e 12\<close>
  | AnoInvalido              \<comment> \<open>ValueError: Ano deve ser um inteiro valido (1900-2100)\<close>
  | ReceitasPrevistasNegativo \<comment> \<open>ValueError: Receitas previstas nao pode ser negativo\<close>
  | NaoPertence              \<comment> \<open>ValueError: Lancamento ... nao pertence ao orcamento\<close>
  | JaExiste                 \<comment> \<open>ValueError: Lancamento ja existe neste orcamento\<close>
  | FormatoNone              \<comment> \<open>TypeError: None rendered with the format :.2f\<close>
  | ZeroDivisionError        \<comment> \<open>ZeroDivisionError: float division by zero\<close>

subsection \<open>Strings and identifiers\<close>

text \<open>
  \<^verbatim>\<open>str.lower\<close> on code points below 256: the letters \<open>A\<close> to \<open>Z\<close> (65 to 90) and the
  upper-case letters of Latin-1 (192 to 222, but not the multiplication sign 215) move up
  by 32; every other code point is its own lower case.
\<close>

definition lower_char :: "char \<Rightarrow> char" where
  "lower_char c =
     (let n = (of_char c :: nat)
      in if (65 \<le> n \<and> n \<le> 90) \<or> (192 \<le> n \<and> n \<le> 222 \<and> n \<noteq> 215)
         then char_of (n + 32) else c)"

definition str_lower :: "string \<Rightarrow> string" where
  "str_lower s = map lower_char s"

text \<open>
  \<^verbatim>\<open>str.strip\<close> removes, at both ends, the code points that \<^verbatim>\<open>str.isspace\<close> accepts; below
  256 these are 9 to 13, 28 to 32, 133 (next line) and 160 (no-break space).
\<close>

definition is_space :: "char \<Rightarrow> bool" where
  "is_space c = ((of_char c :: nat) \<in> {9, 10, 11, 12, 13, 28, 29, 30, 31, 32, 133, 160})"

definition str_strip :: "string \<Rightarrow> string" where
  "str_strip s = rev (dropWhile is_space (rev (dropWhile is_space s)))"

text \<open>\<^verbatim>\<open>id or str(uuid.uuid4())\<close>: a missing or empty identifier is replaced by the drawn one.\<close>

definition id_or_uuid :: "string option \<Rightarrow> string \<Rightarrow> string" where
  "id_or_uuid ident u = (case ident of None \<Rightarrow> u | Some s \<Rightarrow> if s = [] then u else s)"

section \<open>Categoria\<close>

datatype TipoCategoria = RECEITA | DESPESA

record Categoria =
  c_id :: string
  c_nome :: string
  c_tipo :: TipoCategoria
  c_limite_mensal :: "real option"
  c_descricao :: "string option"

text \<open>The setters. Each returns the category after the assignment, or the error raised.\<close>

definition Categoria_set_nome :: "Categoria \<Rightarrow> string \<Rightarrow> error + Categoria" where
  "Categoria_set_nome self valor =
     (if valor = [] then Inl NomeObrigatorio
      else if length (str_strip valor) < 2 then Inl NomeCurto
      else Inr (self\<lparr>c_nome := str_strip valor\<rparr>))"

definition Categoria_set_tipo :: "Categoria \<Rightarrow> TipoCategoria \<Rightarrow> error + Categoria" where
  "Categoria_set_tipo self valor = Inr (self\<lparr>c_tipo := valor\<rparr>)"

definition Categoria_set_limite_mensal :: "Categoria \<Rightarrow> real option \<Rightarrow> error + Categoria" where
  "Categoria_set_limite_mensal self valor =
     (case valor of
        None \<Rightarrow> Inr (self\<lparr>c_limite_mensal := None\<rparr>)
      | Some v \<Rightarrow>
          if c_tipo self = RECEITA then Inl ReceitaComLimite
          else if v \<le> 0 then Inl LimiteNaoPositivo
          else Inr (self\<lparr>c_limite_mensal := Some v\<rparr>))"

definition Categoria_set_descricao :: "Categoria \<Rightarrow> string option \<Rightarrow> error + Categoria" where
  "Categoria_set_descricao self valor =
     Inr (self\<lparr>c_descricao :=
            (case valor of None \<Rightarrow> None
             | Some s \<Rightarrow> if s = [] then None else Some (str_strip s))\<rparr>)"

text \<open>
  \<^verbatim>\<open>Categoria.__init__\<close> stores the identifier and the description as given, then runs the
  setters of \<^verbatim>\<open>nome\<close>, \<^verbatim>\<open>tipo\<close> and \<^verbatim>\<open>limite_mensal\<close> in this order. The fields
  \<^verbatim>\<open>_nome\<close> and \<^verbatim>\<open>_tipo\<close> are \<^verbatim>\<open>None\<close> until their setter has run; no setter reads a
  field before it is assigned (the limit setter reads \<^verbatim>\<open>_tipo\<close> after the kind setter
  ran), so the blank object carries the arguments in their place.
\<close>

definition Categoria_init ::
  "string \<Rightarrow> string \<Rightarrow> TipoCategoria \<Rightarrow> real option \<Rightarrow> string option \<Rightarrow> string option
     \<Rightarrow> error + Categoria" where
  "Categoria_init uuid4 nome tipo limite_mensal descricao ident =
     (let blank = \<lparr>c_id = id_or_uuid ident uuid4, c_nome = nome, c_tipo = tipo,
                    c_limite_mensal = None, c_descricao = descricao\<rparr>
      in case Categoria_set_nome blank nome of
           Inl e \<Rightarrow> Inl e
         | Inr s1 \<Rightarrow>
             (case Categoria_set_tipo s1 tipo of
                Inl e \<Rightarrow> Inl e
              | Inr s2 \<Rightarrow> Categoria_set_limite_mensal s2 limite_mensal))"

text \<open>\<^verbatim>\<open>__eq__\<close> compares the lowered names and the kinds; \<^verbatim>\<open>__hash__\<close> hashes the identifier.
  The hash of a \<^verbatim>\<open>str\<close> is Python's own (seeded per process): it is the parameter \<open>h\<close>.\<close>

definition cat_eq :: "Categoria \<Rightarrow> Categoria \<Rightarrow> bool" where
  "cat_eq self other \<longleftrightarrow>
     str_lower (c_nome self) = str_lower (c_nome other) \<and> c_tipo self = c_tipo other"

definition cat_hash :: "(string \<Rightarrow> int) \<Rightarrow> Categoria \<Rightarrow> int" where
  "cat_hash h self = h (c_id self)"

section \<open>Lancamento, Receita, Despesa\<close>

datatype FormaPagamento = DINHEIRO | DEBITO | CREDITO | PIX

type_synonym date = "int \<times> int \<times> int"

definition d_year :: "date \<Rightarrow> int" where "d_year d = fst d"
definition d_month :: "date \<Rightarrow> int" where "d_month d = fst (snd d)"
definition d_day :: "date \<Rightarrow> int" where "d_day d = snd (snd d)"

text \<open>
  The two concrete subclasses of the abstract \<^verbatim>\<open>Lancamento\<close> share every field; the class of
  an object is the field \<open>l_classe\<close>. The list \<^verbatim>\<open>_alertas\<close> exists on a \<^verbatim>\<open>Despesa\<close> only: on
  a \<^verbatim>\<open>Receita\<close> the field \<open>l_alertas\<close> is never read or written. The category is held by
  reference in the source; here the entry carries the category's value at the time of
  the call.
\<close>

datatype Classe = Receita | Despesa

record Lancamento =
  l_classe :: Classe
  l_id :: string
  l_valor :: real
  l_categoria :: Categoria
  l_data :: date
  l_descricao :: string
  l_forma_pagamento :: FormaPagamento
  l_alertas :: "string list"

definition Lancamento_set_valor :: "Lancamento \<Rightarrow> real \<Rightarrow> error + Lancamento" where
  "Lancamento_set_valor self valor =
     (if valor \<le> 0 then Inl ValorNaoPositivo else Inr (self\<lparr>l_valor := valor\<rparr>))"

text \<open>\<^verbatim>\<open>_validar_categoria\<close>, overridden in each subclass: \<^verbatim>\<open>True\<close> when it does not raise.\<close>

definition validar_categoria :: "Classe \<Rightarrow> Categoria \<Rightarrow> bool" where
  "validar_categoria cls categoria =
     (case cls of Receita \<Rightarrow> c_tipo categoria = RECEITA
                | Despesa \<Rightarrow> c_tipo categoria = DESPESA)"

definition Lancamento_set_categoria :: "Lancamento \<Rightarrow> Categoria \<Rightarrow> error + Lancamento" where
  "Lancamento_set_categoria self valor =
     (if \<not> validar_categoria (l_classe self) valor then Inl CategoriaIncompativel
      else Inr (self\<lparr>l_categoria := valor\<rparr>))"

definition Lancamento_set_data :: "Lancamento \<Rightarrow> date \<Rightarrow> error + Lancamento" where
  "Lancamento_set_data self valor = Inr (self\<lparr>l_data := valor\<rparr>)"

definition Lancamento_set_descricao :: "Lancamento \<Rightarrow> string \<Rightarrow> error + Lancamento" where
  "Lancamento_set_descricao self valor =
     (if valor = [] then Inl DescricaoObrigatoria
      else Inr (self\<lparr>l_descricao := str_strip valor\<rparr>))"

definition Lancamento_set_forma_pagamento ::
  "Lancamento \<Rightarrow> FormaPagamento \<Rightarrow> error + Lancamento" where
  "Lancamento_set_forma_pagamento self valor = Inr (self\<lparr>l_forma_pagamento := valor\<rparr>)"

text \<open>
  \<^verbatim>\<open>Lancamento.__init__\<close>: the setters of \<^verbatim>\<open>valor\<close>, \<^verbatim>\<open>categoria\<close>, \<^verbatim>\<open>data\<close>,
  \<^verbatim>\<open>descricao\<close> and \<^verbatim>\<open>forma_pagamento\<close> in this order, the first error ends the
  construction.
\<close>

definition Lancamento_init ::
  "Classe \<Rightarrow> string \<Rightarrow> real \<Rightarrow> Categoria \<Rightarrow> date \<Rightarrow> string \<Rightarrow> FormaPagamento
     \<Rightarrow> string option \<Rightarrow> error + Lancamento" where
  "Lancamento_init cls uuid4 valor categoria data descricao forma_pagamento ident =
     (let blank = \<lparr>l_classe = cls, l_id = id_or_uuid ident uuid4, l_valor = valor,
                    l_categoria = categoria, l_data = data, l_descricao = descricao,
                    l_forma_pagamento = forma_pagamento, l_alertas = []\<rparr>
      in case Lancamento_set_valor blank valor of
           Inl e \<Rightarrow> Inl e
         | Inr s1 \<Rightarrow>
        (case Lancamento_set_categoria s1 categoria of
           Inl e \<Rightarrow> Inl e
         | Inr s2 \<Rightarrow>
        (case Lancamento_set_data s2 data of
           Inl e \<Rightarrow> Inl e
         | Inr s3 \<Rightarrow>
        (case Lancamento_set_descricao s3 descricao of
           Inl e \<Rightarrow> Inl e
         | Inr s4 \<Rightarrow> Lancamento_set_forma_pagamento s4 forma_pagamento))))"

definition Receita_init ::
  "string \<Rightarrow> real \<Rightarrow> Categoria \<Rightarrow> date \<Rightarrow> string \<Rightarrow> FormaPagamento \<Rightarrow> string option
     \<Rightarrow> error + Lancamento" where
  "Receita_init = Lancamento_init Receita"

text \<open>\<^verbatim>\<open>Despesa._verificar_alertas\<close>, with its constant \<^verbatim>\<open>LIMITE_ALTO_VALOR = 500.0\<close>.\<close>

definition LIMITE_ALTO_VALOR :: real where
  "LIMITE_ALTO_VALOR = 500"

definition verificar_alertas :: "Lancamento \<Rightarrow> Lancamento" where
  "verificar_alertas self =
     (if l_valor self > LIMITE_ALTO_VALOR
      then self\<lparr>l_alertas := l_alertas self @ [''ALTO_VALOR'']\<rparr> else self)"

definition Despesa_init ::
  "string \<Rightarrow> real \<Rightarrow> Categoria \<Rightarrow> date \<Rightarrow> string \<Rightarrow> FormaPagamento \<Rightarrow> string option
     \<Rightarrow> error + Lancamento" where
  "Despesa_init uuid4 valor categoria data descricao forma_pagamento ident =
     (case Lancamento_init Despesa uuid4 valor categoria data descricao forma_pagamento ident of
        Inl e \<Rightarrow> Inl e
      | Inr self \<Rightarrow> Inr (verificar_alertas (self\<lparr>l_alertas := []\<rparr>)))"

text \<open>\<^verbatim>\<open>Despesa.verificar_limite_categoria\<close>: the expense after the call, and the value returned.\<close>

definition verificar_limite_categoria :: "Lancamento \<Rightarrow> real \<Rightarrow> Lancamento \<times> bool" where
  "verificar_limite_categoria self total_categoria_mes =
     (case c_limite_mensal (l_categoria self) of
        None \<Rightarrow> (self, False)
      | Some limite \<Rightarrow>
          if total_categoria_mes + l_valor self > limite
          then (if ''LIMITE_EXCEDIDO'' \<notin> set (l_alertas self)
                then self\<lparr>l_alertas := l_alertas self @ [''LIMITE_EXCEDIDO'']\<rparr> else self,
                True)
          else (self, False))"

definition l_mes_ano :: "Lancamento \<Rightarrow> int \<times> int" where
  "l_mes_ano self = (d_month (l_data self), d_year (l_data self))"

definition lanc_eq :: "Lancamento \<Rightarrow> Lancamento \<Rightarrow> bool" where
  "lanc_eq self other \<longleftrightarrow>
     l_id self = l_id other \<or>
     (l_data self = l_data other \<and> str_lower (l_descricao self) = str_lower (l_descricao other))"

definition lanc_hash :: "(string \<Rightarrow> int) \<Rightarrow> Lancamento \<Rightarrow> int" where
  "lanc_hash h self = h (l_id self)"

definition lanc_lt :: "Lancamento \<Rightarrow> Lancamento \<Rightarrow> bool" where
  "lanc_lt self other \<longleftrightarrow>
     (if l_data self = l_data other then l_valor self < l_valor other
      else l_data self < l_data other)"

section \<open>Alerta\<close>

datatype TipoAlerta =
  ALTO_VALOR | LIMITE_EXCEDIDO | DEFICIT_ORCAMENTARIO | SALDO_NEGATIVO | META_NAO_ATINGIDA

text \<open>
  The message of an alert is an f-string of its factory. It is kept as the template
  together with the values that the template interpolates, before they are rendered with
  two decimals: \<open>MsgLimiteExcedido nome limite total\<close> stands for
  \<^verbatim>\<open>Limite da categoria '{nome}' excedido! Limite: R${limite:.2f}, Total: R${total:.2f}\<close>.
  Each template starts and ends with a character that is not blank, so the setter of
  \<^verbatim>\<open>mensagem\<close> neither raises nor strips anything.
\<close>

datatype Mensagem =
    MsgAltoValor real
  | MsgLimiteExcedido string real real
  | MsgDeficit int int real

record Alerta =
  a_id :: string
  a_tipo :: TipoAlerta
  a_mensagem :: Mensagem
  a_data_criacao :: nat
  a_lancamento_id :: "string option"
  a_categoria_id :: "string option"
  a_mes_ano :: "(int \<times> int) option"
  a_lido :: bool

text \<open>
  \<^verbatim>\<open>Alerta.__init__\<close> as the factories call it: no \<^verbatim>\<open>id\<close>, no \<^verbatim>\<open>data_criacao\<close>, and
  \<^verbatim>\<open>lido\<close> left at \<^verbatim>\<open>False\<close>. The pair \<open>draw\<close> is the identifier and the clock reading
  that this construction draws.
\<close>

definition Alerta_init ::
  "string \<times> nat \<Rightarrow> TipoAlerta \<Rightarrow> Mensagem \<Rightarrow> string option \<Rightarrow> string option
     \<Rightarrow> (int \<times> int) option \<Rightarrow> Alerta" where
  "Alerta_init draw tipo mensagem lancamento_id categoria_id mes_ano =
     \<lparr>a_id = fst draw, a_tipo = tipo, a_mensagem = mensagem, a_data_criacao = snd draw,
      a_lancamento_id = lancamento_id, a_categoria_id = categoria_id, a_mes_ano = mes_ano,
      a_lido = False\<rparr>"

definition criar_alerta_alto_valor :: "string \<times> nat \<Rightarrow> string \<Rightarrow> real \<Rightarrow> Alerta" where
  "criar_alerta_alto_valor draw lancamento_id valor =
     Alerta_init draw ALTO_VALOR (MsgAltoValor valor) (Some lancamento_id) None None"

definition criar_alerta_limite_excedido ::
  "string \<times> nat \<Rightarrow> string \<Rightarrow> string \<Rightarrow> real \<Rightarrow> real \<Rightarrow> Alerta" where
  "criar_alerta_limite_excedido draw categoria_id categoria_nome limite total_gasto =
     Alerta_init draw LIMITE_EXCEDIDO (MsgLimiteExcedido categoria_nome limite total_gasto)
       None (Some categoria_id) None"

definition criar_alerta_deficit :: "string \<times> nat \<Rightarrow> int \<Rightarrow> int \<Rightarrow> real \<Rightarrow> Alerta" where
  "criar_alerta_deficit draw mes ano saldo =
     Alerta_init draw DEFICIT_ORCAMENTARIO (MsgDeficit mes ano \<bar>saldo\<bar>)
       None None (Some (mes, ano))"

section \<open>OrcamentoMensal\<close>

record OrcamentoMensal =
  o_id :: string
  o_mes :: int
  o_ano :: int
  o_receitas_previstas :: real
  o_lancamentos :: "Lancamento list"
  o_alertas :: "Alerta list"

definition OrcamentoMensal_init ::
  "string \<Rightarrow> int \<Rightarrow> int \<Rightarrow> real \<Rightarrow> string option \<Rightarrow> error + OrcamentoMensal" where
  "OrcamentoMensal_init uuid4 mes ano receitas_previstas ident =
     (if \<not> (1 \<le> mes \<and> mes \<le> 12) then Inl MesInvalido
      else if ano < 1900 \<or> ano > 2100 then Inl AnoInvalido
      else if receitas_previstas < 0 then Inl ReceitasPrevistasNegativo
      else Inr \<lparr>o_id = id_or_uuid ident uuid4, o_mes = mes, o_ano = ano,
                 o_receitas_previstas = receitas_previstas, o_lancamentos = [],
                 o_alertas = []\<rparr>)"

definition o_mes_ano :: "OrcamentoMensal \<Rightarrow> int \<times> int" where
  "o_mes_ano self = (o_mes self, o_ano self)"

definition total_receitas :: "OrcamentoMensal \<Rightarrow> real" where
  "total_receitas self =
     sum_list (map l_valor (filter (\<lambda>lanc. l_classe lanc = Receita) (o_lancamentos self)))"

definition total_despesas :: "OrcamentoMensal \<Rightarrow> real" where
  "total_despesas self =
     sum_list (map l_valor (filter (\<lambda>lanc. l_classe lanc = Despesa) (o_lancamentos self)))"

definition saldo :: "OrcamentoMensal \<Rightarrow> real" where
  "saldo self = total_receitas self - total_despesas self"

definition tem_deficit :: "OrcamentoMensal \<Rightarrow> bool" where
  "tem_deficit self \<longleftrightarrow> saldo self < 0"

definition total_por_categoria :: "OrcamentoMensal \<Rightarrow> Categoria \<Rightarrow> real" where
  "total_por_categoria self categoria =
     sum_list (map l_valor
       (filter (\<lambda>lanc. cat_eq (l_categoria lanc) categoria) (o_lancamentos self)))"

text \<open>
  \<^verbatim>\<open>list.sort()\<close> is a stable sort that compares with \<^verbatim>\<open>__lt__\<close> only: every element is
  inserted behind the elements that it is not less than.
\<close>

fun insort_lanc :: "Lancamento \<Rightarrow> Lancamento list \<Rightarrow> Lancamento list" where
  "insort_lanc x [] = [x]"
| "insort_lanc x (y # ys) = (if lanc_lt x y then x # y # ys else y # insort_lanc x ys)"

definition sort_lanc :: "Lancamento list \<Rightarrow> Lancamento list" where
  "sort_lanc xs = foldl (\<lambda>acc x. insort_lanc x acc) [] xs"

text \<open>\<^verbatim>\<open>lancamento in self._lancamentos\<close>: some held entry is \<^verbatim>\<open>==\<close> to it.\<close>

definition contem :: "Lancamento list \<Rightarrow> Lancamento \<Rightarrow> bool" where
  "contem lancamentos lancamento \<longleftrightarrow> list_ex (\<lambda>e. lanc_eq e lancamento) lancamentos"

definition deficit_existente :: "OrcamentoMensal \<Rightarrow> bool" where
  "deficit_existente self \<longleftrightarrow>
     list_ex (\<lambda>a. a_tipo a = DEFICIT_ORCAMENTARIO \<and> a_mes_ano a = Some (o_mes_ano self))
       (o_alertas self)"

text \<open>
  The part of \<^verbatim>\<open>adicionar_lancamento\<close> that runs for a \<^verbatim>\<open>Despesa\<close> before the insertion:
  the expense after the limit check and the alerts generated so far. The \<open>k\<close>-th alert
  constructed during one call draws \<open>env k\<close>. The factory renders the limit with
  \<^verbatim>\<open>:.2f\<close>, which raises a \<^verbatim>\<open>TypeError\<close> on \<^verbatim>\<open>None\<close>.
\<close>

definition alertas_despesa ::
  "(nat \<Rightarrow> string \<times> nat) \<Rightarrow> OrcamentoMensal \<Rightarrow> Lancamento
     \<Rightarrow> Lancamento \<times> (error + Alerta list)" where
  "alertas_despesa env self lancamento =
     (let gerados1 =
            (if ''ALTO_VALOR'' \<in> set (l_alertas lancamento)
             then [criar_alerta_alto_valor (env 0) (l_id lancamento) (l_valor lancamento)]
             else []);
          total_categoria = total_por_categoria self (l_categoria lancamento);
          (lancamento', excedeu) = verificar_limite_categoria lancamento total_categoria
      in if excedeu
         then (case c_limite_mensal (l_categoria lancamento') of
                 None \<Rightarrow> (lancamento', Inl FormatoNone)
               | Some limite \<Rightarrow>
                   (lancamento',
                    Inr (gerados1 @
                      [criar_alerta_limite_excedido (env (length gerados1))
                         (c_id (l_categoria lancamento')) (c_nome (l_categoria lancamento'))
                         limite (total_categoria + l_valor lancamento')])))
         else (lancamento', Inr gerados1))"

text \<open>
  The part of \<^verbatim>\<open>adicionar_lancamento\<close> from the insertion on (``Adicionar lancamento'',
  ``Registrar alertas'', ``Verificar deficit apos adicionar''), given the entry as the
  limit check left it and the alerts generated before the insertion.
\<close>

definition registrar ::
  "(nat \<Rightarrow> string \<times> nat) \<Rightarrow> OrcamentoMensal \<Rightarrow> Lancamento \<Rightarrow> Alerta list
     \<Rightarrow> OrcamentoMensal \<times> Lancamento \<times> (error + Alerta list)" where
  "registrar env self lancamento alertas_gerados =
     (let self1 = self\<lparr>o_lancamentos := sort_lanc (o_lancamentos self @ [lancamento])\<rparr>;
          self2 = self1\<lparr>o_alertas := o_alertas self1 @ alertas_gerados\<rparr>
      in if tem_deficit self2
         then if \<not> deficit_existente self2
              then let alerta_deficit =
                         criar_alerta_deficit (env (length alertas_gerados))
                           (o_mes self2) (o_ano self2) (saldo self2)
                   in (self2\<lparr>o_alertas := o_alertas self2 @ [alerta_deficit]\<rparr>,
                       lancamento, Inr (alertas_gerados @ [alerta_deficit]))
              else (self2, lancamento, Inr alertas_gerados)
         else (self2, lancamento, Inr alertas_gerados))"

text \<open>
  \<^verbatim>\<open>OrcamentoMensal.adicionar_lancamento\<close>. The result is the budget and the entry as the
  call leaves them, and either the error raised or the list returned.
\<close>

definition adicionar_lancamento ::
  "(nat \<Rightarrow> string \<times> nat) \<Rightarrow> OrcamentoMensal \<Rightarrow> Lancamento
     \<Rightarrow> OrcamentoMensal \<times> Lancamento \<times> (error + Alerta list)" where
  "adicionar_lancamento env self lancamento =
     (if l_mes_ano lancamento \<noteq> o_mes_ano self then (self, lancamento, Inl NaoPertence)
      else if contem (o_lancamentos self) lancamento then (self, lancamento, Inl JaExiste)
      else
        case (if l_classe lancamento = Despesa then alertas_despesa env self lancamento
              else (lancamento, Inr [])) of
          (lancamento', Inl e) \<Rightarrow> (self, lancamento', Inl e)
        | (lancamento', Inr alertas_gerados) \<Rightarrow>
            registrar env self lancamento' alertas_gerados)"

text \<open>
  \<^verbatim>\<open>despesas_por_categoria\<close>: the loop over the held entries updates a dictionary keyed by
  the category's name. The dictionary is an association list in insertion order;
  \<^verbatim>\<open>totais[k] += v\<close> on a \<^verbatim>\<open>defaultdict(float)\<close> reads a missing key as \<open>0.0\<close> and appends it.
\<close>

fun dict_add :: "(string \<times> real) list \<Rightarrow> string \<Rightarrow> real \<Rightarrow> (string \<times> real) list" where
  "dict_add [] k v = [(k, 0 + v)]"
| "dict_add ((k', t) # rest) k v =
     (if k' = k then (k', t + v) # rest else (k', t) # dict_add rest k v)"

fun despesas_loop :: "Lancamento list \<Rightarrow> (string \<times> real) list \<Rightarrow> (string \<times> real) list" where
  "despesas_loop [] totais = totais"
| "despesas_loop (lanc # rest) totais =
     (if l_classe lanc = Despesa
      then despesas_loop rest (dict_add totais (c_nome (l_categoria lanc)) (l_valor lanc))
      else despesas_loop rest totais)"

definition despesas_por_categoria :: "OrcamentoMensal \<Rightarrow> (string \<times> real) list" where
  "despesas_por_categoria self = despesas_loop (o_lancamentos self) []"

text \<open>
  \<^verbatim>\<open>percentual_por_categoria\<close>. The division of two floats raises \<^verbatim>\<open>ZeroDivisionError\<close> on a
  zero divisor; the dictionary comprehension divides once for every item, in order, and
  the first error ends it.
\<close>

definition py_truediv :: "real \<Rightarrow> real \<Rightarrow> error + real" where
  "py_truediv x y = (if y = 0 then Inl ZeroDivisionError else Inr (x / y))"

fun percentual_items :: "(string \<times> real) list \<Rightarrow> real \<Rightarrow> error + (string \<times> real) list" where
  "percentual_items [] tot = Inr []"
| "percentual_items ((cat, valor) # rest) tot =
     (case py_truediv valor tot of
        Inl e \<Rightarrow> Inl e
      | Inr q \<Rightarrow>
          (case percentual_items rest tot of
             Inl e \<Rightarrow> Inl e
           | Inr r \<Rightarrow> Inr ((cat, q * 100) # r)))"

definition percentual_por_categoria :: "OrcamentoMensal \<Rightarrow> error + (string \<times> real) list" where
  "percentual_por_categoria self =
     (let tot = total_despesas self
      in if tot = 0 then Inr []
         else percentual_items (despesas_por_categoria self) tot)"

text \<open>
  \<^verbatim>\<open>saldo_por_dia\<close>: \<^verbatim>\<open>sorted(..., key=lambda x: x.data)\<close> is the stable sort by date, and
  the loop carries the dictionary and the accumulated balance.
\<close>

fun saldo_loop :: "Lancamento list \<Rightarrow> (date \<rightharpoonup> real) \<Rightarrow> real \<Rightarrow> (date \<rightharpoonup> real)" where
  "saldo_loop [] saldos acumulado = saldos"
| "saldo_loop (lanc # rest) saldos acumulado =
     (let acumulado' = (if l_classe lanc = Receita then acumulado + l_valor lanc
                        else acumulado - l_valor lanc)
      in saldo_loop rest (saldos(l_data lanc \<mapsto> acumulado')) acumulado')"

definition saldo_por_dia :: "OrcamentoMensal \<Rightarrow> (date \<rightharpoonup> real)" where
  "saldo_por_dia self = saldo_loop (sort_key l_data (o_lancamentos self)) Map.empty 0"

section \<open>The running balance, as the specification words it\<close>

text \<open>
  The specification describes \<^verbatim>\<open>saldo_por_dia\<close> as a replay of the entries that adds each
  income amount to a cumulative balance and subtracts each expense amount from it. This is
  that replay on its own, starting from a given balance; it is compared with the loop of
  the source below.
\<close>

fun saldo_acumulado :: "real \<Rightarrow> Lancamento list \<Rightarrow> real" where
  "saldo_acumulado acumulado [] = acumulado"
| "saldo_acumulado acumulado (lanc # rest) =
     saldo_acumulado
       (if l_classe lanc = Receita then acumulado + l_valor lanc else acumulado - l_valor lanc)
       rest"

section \<open>Sequences of insertions\<close>

text \<open>
  Two notions used to state properties of the alert log: the number of alerts of kind
  \<^verbatim>\<open>DEFICIT_ORCAMENTARIO\<close> in the log whose \<^verbatim>\<open>mes_ano\<close> is the budget's own, and the budget
  left by a sequence of calls of \<^verbatim>\<open>adicionar_lancamento\<close>, each with its own draws, where
  a call that raises leaves the budget as it is at the raise and the sequence goes on.
\<close>

definition n_deficit :: "OrcamentoMensal \<Rightarrow> nat" where
  "n_deficit self =
     length (filter (\<lambda>a. a_tipo a = DEFICIT_ORCAMENTARIO \<and> a_mes_ano a = Some (o_mes_ano self))
       (o_alertas self))"

fun adicionar_todos ::
  "OrcamentoMensal \<Rightarrow> ((nat \<Rightarrow> string \<times> nat) \<times> Lancamento) list \<Rightarrow> OrcamentoMensal" where
  "adicionar_todos self [] = self"
| "adicionar_todos self ((env, lancamento) # rest) =
     adicionar_todos (fst (adicionar_lancamento env self lancamento)) rest"

section \<open>Scenario values\<close>

text \<open>The objects of the test scenarios, as their constructors build them.\<close>

definition cat_food :: Categoria where
  "cat_food = \<lparr>c_id = ''cat-food'', c_nome = ''Food'', c_tipo = DESPESA,
                c_limite_mensal = Some 500, c_descricao = None\<rparr>"

definition despesa1 :: Lancamento where
  "despesa1 = \<lparr>l_classe = Despesa, l_id = ''d1'', l_valor = 400, l_categoria = cat_food,
                l_data = (2024, 12, 5), l_descricao = ''Compra 1'',
                l_forma_pagamento = DEBITO, l_alertas = []\<rparr>"

definition despesa2 :: Lancamento where
  "despesa2 = \<lparr>l_classe = Despesa, l_id = ''d2'', l_valor = 200, l_categoria = cat_food,
                l_data = (2024, 12, 10), l_descricao = ''Compra 2'',
                l_forma_pagamento = DEBITO, l_alertas = []\<rparr>"

definition orcamento_dezembro :: OrcamentoMensal where
  "orcamento_dezembro = \<lparr>o_id = ''orc-12'', o_mes = 12, o_ano = 2024,
                          o_receitas_previstas = 5000, o_lancamentos = [], o_alertas = []\<rparr>"

text \<open>Identifiers and clock readings for the alerts of one call: \<open>a\<close>, \<open>aa\<close>, ... at times 0, 1, ...\<close>

definition env0 :: "nat \<Rightarrow> string \<times> nat" where
  "env0 k = (replicate (Suc k) CHR ''a'', k)"

definition env1 :: "nat \<Rightarrow> string \<times> nat" where
  "env1 k = (replicate (Suc k) CHR ''b'', 10 + k)"

text \<open>
  The budget after the expense of 400 was added to the new budget, the second expense as
  the limit check marks it, and the budget after the second expense was added.
\<close>

definition orcamento1 :: OrcamentoMensal where
  "orcamento1 = orcamento_dezembro\<lparr>o_lancamentos := [despesa1],
                  o_alertas := [criar_alerta_deficit (env0 0) 12 2024 (- 400)]\<rparr>"

definition despesa2_marcada :: Lancamento where
  "despesa2_marcada = despesa2\<lparr>l_alertas := [''LIMITE_EXCEDIDO'']\<rparr>"

definition orcamento2 :: OrcamentoMensal where
  "orcamento2 = orcamento1\<lparr>o_lancamentos := [despesa1, despesa2_marcada],
                  o_alertas := [criar_alerta_deficit (env0 0) 12 2024 (- 400),
                                criar_alerta_limite_excedido (env1 0) ''cat-food'' ''Food'' 500 600]\<rparr>"

text \<open>An entry of another month, and an entry that collides with the first expense on the
  date and, up to case, the description.\<close>

definition despesa_nov :: Lancamento where
  "despesa_nov = despesa1\<lparr>l_data := (2024, 11, 5)\<rparr>"

definition despesa_dup :: Lancamento where
  "despesa_dup = despesa1\<lparr>l_id := ''d9'', l_valor := 50, l_descricao := ''COMPRA 1''\<rparr>"

definition cat_transport :: Categoria where
  "cat_transport = \<lparr>c_id = ''cat-transport'', c_nome = ''Transport'', c_tipo = DESPESA,
                     c_limite_mensal = Some 300, c_descricao = None\<rparr>"

definition cat_salary :: Categoria where
  "cat_salary = \<lparr>c_id = ''cat-salary'', c_nome = ''Salary'', c_tipo = RECEITA,
                  c_limite_mensal = None, c_descricao = None\<rparr>"

definition despesa_food :: Lancamento where
  "despesa_food = \<lparr>l_classe = Despesa, l_id = ''f1'', l_valor = 300, l_categoria = cat_food,
                    l_data = (2024, 12, 5), l_descricao = ''Food'',
                    l_forma_pagamento = DEBITO, l_alertas = []\<rparr>"

definition despesa_transport :: Lancamento where
  "despesa_transport = \<lparr>l_classe = Despesa, l_id = ''t1'', l_valor = 100,
                         l_categoria = cat_transport, l_data = (2024, 12, 10),
                         l_descricao = ''Transport'', l_forma_pagamento = PIX,
                         l_alertas = []\<rparr>"

definition receita_salary :: Lancamento where
  "receita_salary = \<lparr>l_classe = Receita, l_id = ''r1'', l_valor = 1000,
                      l_categoria = cat_salary, l_data = (2024, 12, 5),
                      l_descricao = ''Salary'', l_forma_pagamento = PIX, l_alertas = []\<rparr>"

text \<open>A budget that holds three entries, two of them on the same date.\<close>

definition orcamento_dias :: OrcamentoMensal where
  "orcamento_dias = orcamento_dezembro\<lparr>o_lancamentos := [despesa1, receita_salary, despesa2]\<rparr>"

text \<open>A concrete hash of strings, to run the statements that take the hash as a parameter.\<close>

definition hash_len :: "string \<Rightarrow> int" where
  "hash_len s = int (length s)"

text \<open>
  Objects whose names and descriptions leave ASCII: two categories with one name, written
  with a c-cedilla and an a-tilde in lower case (code points 231, 227) and in upper case
  (199, 195), two expenses with one description ending in an e-acute, in lower case (233)
  and in upper case (201), and the budget after the first of them was added.
\<close>

definition cat_acao :: Categoria where
  "cat_acao = \<lparr>c_id = ''cat-acao'', c_nome = [CHR ''A'', CHR 0xE7, CHR 0xE3, CHR ''o''],
                c_tipo = DESPESA, c_limite_mensal = Some 500, c_descricao = None\<rparr>"

definition cat_ACAO :: Categoria where
  "cat_ACAO = \<lparr>c_id = ''cat-acao-2'', c_nome = [CHR ''A'', CHR 0xC7, CHR 0xC3, CHR ''O''],
                c_tipo = DESPESA, c_limite_mensal = Some 500, c_descricao = None\<rparr>"

definition despesa_cafe :: Lancamento where
  "despesa_cafe = \<lparr>l_classe = Despesa, l_id = ''c1'', l_valor = 400, l_categoria = cat_acao,
                    l_data = (2024, 12, 5),
                    l_descricao = [CHR ''C'', CHR ''a'', CHR ''f'', CHR 0xE9],
                    l_forma_pagamento = DEBITO, l_alertas = []\<rparr>"

definition despesa_CAFE :: Lancamento where
  "despesa_CAFE = \<lparr>l_classe = Despesa, l_id = ''c2'', l_valor = 200, l_categoria = cat_ACAO,
                    l_data = (2024, 12, 5),
                    l_descricao = [CHR ''C'', CHR ''A'', CHR ''F'', CHR 0xC9],
                    l_forma_pagamento = DEBITO, l_alertas = []\<rparr>"

definition despesa_ACAO :: Lancamento where
  "despesa_ACAO = despesa_CAFE\<lparr>l_data := (2024, 12, 10)\<rparr>"

definition orcamento_cafe :: OrcamentoMensal where
  "orcamento_cafe = orcamento_dezembro\<lparr>o_lancamentos := [despesa_cafe],
                      o_alertas := [criar_alerta_deficit (env0 0) 12 2024 (- 400)]\<rparr>"

section \<open>Properties of the constructors and setters\<close>

lemma strip_Food: "str_strip ''Food'' = ''Food''"
  by (simp add: str_strip_def is_space_def)

lemma cat_food_init:
  "Categoria_init ''cat-food'' ''Food'' DESPESA (Some 500) None None = Inr cat_food"
  by (simp add: Categoria_init_def Categoria_set_nome_def Categoria_set_tipo_def
      Categoria_set_limite_mensal_def id_or_uuid_def cat_food_def strip_Food)

lemma Lancamento_init_eq:
  "Lancamento_init cls u v c dt ds fp i =
     (if v \<le> 0 then Inl ValorNaoPositivo
      else if \<not> validar_categoria cls c then Inl CategoriaIncompativel
      else if ds = [] then Inl DescricaoObrigatoria
      else Inr \<lparr>l_classe = cls, l_id = id_or_uuid i u, l_valor = v, l_categoria = c,
                 l_data = dt, l_descricao = str_strip ds, l_forma_pagamento = fp,
                 l_alertas = []\<rparr>)"
  by (simp add: Lancamento_init_def Lancamento_set_valor_def Lancamento_set_categoria_def
      Lancamento_set_data_def Lancamento_set_descricao_def Lancamento_set_forma_pagamento_def)

lemma Despesa_init_eq:
  "Despesa_init u v c dt ds fp i =
     (if v \<le> 0 then Inl ValorNaoPositivo
      else if c_tipo c \<noteq> DESPESA then Inl CategoriaIncompativel
      else if ds = [] then Inl DescricaoObrigatoria
      else Inr \<lparr>l_classe = Despesa, l_id = id_or_uuid i u, l_valor = v, l_categoria = c,
                 l_data = dt, l_descricao = str_strip ds, l_forma_pagamento = fp,
                 l_alertas = (if v > 500 then [''ALTO_VALOR''] else [])\<rparr>)"
  by (simp add: Despesa_init_def Lancamento_init_eq verificar_alertas_def LIMITE_ALTO_VALOR_def
      validar_categoria_def)

lemma Despesa_init_tags:
  "Despesa_init u v c dt ds fp i = Inr d \<Longrightarrow>
     l_alertas d = (if v > 500 then [''ALTO_VALOR''] else []) \<and> l_valor d = v"
  by (auto simp: Despesa_init_eq split: if_splits)

lemma count_list_mem_le1:
  "x \<in> set xs \<Longrightarrow> count_list xs x \<le> Suc 0 \<Longrightarrow> count_list xs x = Suc 0"
  using count_list_0_iff [of xs x] by arith

lemma strip_Compra: "str_strip ''Compra 1'' = ''Compra 1''" "str_strip ''Compra 2'' = ''Compra 2''"
  by (simp_all add: str_strip_def is_space_def)

lemma despesa1_init:
  "Despesa_init ''d1'' 400 cat_food (2024, 12, 5) ''Compra 1'' DEBITO None = Inr despesa1"
  by (simp add: Despesa_init_eq despesa1_def id_or_uuid_def strip_Compra) (simp add: cat_food_def)

lemma despesa2_init:
  "Despesa_init ''d2'' 200 cat_food (2024, 12, 10) ''Compra 2'' DEBITO None = Inr despesa2"
  by (simp add: Despesa_init_eq despesa2_def id_or_uuid_def strip_Compra) (simp add: cat_food_def)

text \<open>
  Claim C5 (the code departs from it). The claim: no sequence of successful constructor and
  setter calls yields a category of kind \<^verbatim>\<open>RECEITA\<close> that carries a monthly limit. The
  setter of \<^verbatim>\<open>limite_mensal\<close> refuses a limit on a \<^verbatim>\<open>RECEITA\<close> category, but the setter of
  \<^verbatim>\<open>tipo\<close> does not look at the limit: the expense category ``Food'' with limit 500,
  built by the constructor, becomes a \<^verbatim>\<open>RECEITA\<close> category with limit 500 by one
  successful assignment of \<^verbatim>\<open>tipo\<close>.
\<close>

theorem Categoria_tipo_setter_keeps_limite:
  "Categoria_init ''cat-food'' ''Food'' DESPESA (Some 500) None None = Inr cat_food \<and>
   Categoria_set_tipo cat_food RECEITA = Inr (cat_food\<lparr>c_tipo := RECEITA\<rparr>) \<and>
   c_tipo (cat_food\<lparr>c_tipo := RECEITA\<rparr>) = RECEITA \<and>
   c_limite_mensal (cat_food\<lparr>c_tipo := RECEITA\<rparr>) = Some 500"
  by (simp add: cat_food_init) (simp add: Categoria_set_tipo_def cat_food_def)

text \<open>
  The part of the invariant that does hold: the constructor, and the setters of \<^verbatim>\<open>nome\<close>,
  \<^verbatim>\<open>limite_mensal\<close> and \<^verbatim>\<open>descricao\<close>, never produce or turn a category into a
  \<^verbatim>\<open>RECEITA\<close> category with a limit.
\<close>

lemma Categoria_init_sem_limite:
  "Categoria_init u n t l d i = Inr c \<Longrightarrow> c_tipo c = RECEITA \<Longrightarrow> c_limite_mensal c = None"
  by (auto simp: Categoria_init_def Categoria_set_nome_def Categoria_set_tipo_def
      Categoria_set_limite_mensal_def Let_def split: if_splits option.splits)

lemma Categoria_setters_sem_limite:
  assumes "c_tipo c = RECEITA \<longrightarrow> c_limite_mensal c = None"
    and "Categoria_set_nome c n = Inr c' \<or> Categoria_set_limite_mensal c l = Inr c'
         \<or> Categoria_set_descricao c d = Inr c'"
  shows "c_tipo c' = RECEITA \<longrightarrow> c_limite_mensal c' = None"
  using assms
  by (auto simp: Categoria_set_nome_def Categoria_set_limite_mensal_def
      Categoria_set_descricao_def split: if_splits option.splits)

text \<open>
  Claim C4. \<^verbatim>\<open>verificar_limite_categoria\<close> returns \<^verbatim>\<open>True\<close> exactly when the category has a
  limit and the figure already spent plus the amount of the expense exceeds it, hence
  \<^verbatim>\<open>False\<close> when there is no limit. A second call with the same figure returns the same
  value and changes nothing. The first call adds the tag \<^verbatim>\<open>LIMITE_EXCEDIDO\<close> once when it
  returns \<^verbatim>\<open>True\<close> and the tag is absent, and never otherwise; so on an expense holding the
  tag at most once, as every constructed expense does, two calls returning \<^verbatim>\<open>True\<close> leave
  exactly one occurrence.
\<close>

theorem verificar_limite_categoria_correct:
  assumes "verificar_limite_categoria d t = (d1, r1)"
    and "verificar_limite_categoria d1 t = (d2, r2)"
  shows "(r1 \<longleftrightarrow> (\<exists>lim. c_limite_mensal (l_categoria d) = Some lim \<and> t + l_valor d > lim))
    \<and> (c_limite_mensal (l_categoria d) = None \<longrightarrow> \<not> r1)
    \<and> r2 = r1 \<and> d2 = d1
    \<and> count_list (l_alertas d1) ''LIMITE_EXCEDIDO'' =
          (if r1 \<and> ''LIMITE_EXCEDIDO'' \<notin> set (l_alertas d) then 1 else 0)
            + count_list (l_alertas d) ''LIMITE_EXCEDIDO''
    \<and> (r1 \<and> count_list (l_alertas d) ''LIMITE_EXCEDIDO'' \<le> 1
           \<longrightarrow> count_list (l_alertas d2) ''LIMITE_EXCEDIDO'' = 1)
    \<and> ((\<exists>u v c dt ds fp i. Despesa_init u v c dt ds fp i = Inr d)
           \<longrightarrow> count_list (l_alertas d) ''LIMITE_EXCEDIDO'' = 0)"
proof -
  have a: "(\<exists>u v c dt ds fp i. Despesa_init u v c dt ds fp i = Inr d)
           \<longrightarrow> count_list (l_alertas d) ''LIMITE_EXCEDIDO'' = 0"
    by (auto simp: Despesa_init_tags)
  have b: "r1 \<and> count_list (l_alertas d) ''LIMITE_EXCEDIDO'' \<le> 1
           \<longrightarrow> count_list (l_alertas d2) ''LIMITE_EXCEDIDO'' = 1"
    using assms
    by (auto simp: verificar_limite_categoria_def count_list_0_iff
        split: option.splits if_splits intro: count_list_mem_le1)
  have c: "(r1 \<longleftrightarrow> (\<exists>lim. c_limite_mensal (l_categoria d) = Some lim \<and> t + l_valor d > lim))
    \<and> (c_limite_mensal (l_categoria d) = None \<longrightarrow> \<not> r1)
    \<and> r2 = r1 \<and> d2 = d1
    \<and> count_list (l_alertas d1) ''LIMITE_EXCEDIDO'' =
          (if r1 \<and> ''LIMITE_EXCEDIDO'' \<notin> set (l_alertas d) then 1 else 0)
            + count_list (l_alertas d) ''LIMITE_EXCEDIDO''"
    using assms
    by (auto simp: verificar_limite_categoria_def count_list_0_iff
      split: option.splits if_splits)
  from a b c show ?thesis by blast
qed

theorem verificar_limite_categoria_correct_witness:
  "verificar_limite_categoria despesa2 400 =
     (despesa2\<lparr>l_alertas := [''LIMITE_EXCEDIDO'']\<rparr>, True)
   \<and> verificar_limite_categoria (despesa2\<lparr>l_alertas := [''LIMITE_EXCEDIDO'']\<rparr>) 400 =
     (despesa2\<lparr>l_alertas := [''LIMITE_EXCEDIDO'']\<rparr>, True)
   \<and> verificar_limite_categoria despesa1 0 = (despesa1, False)
   \<and> count_list (l_alertas (despesa2\<lparr>l_alertas := [''LIMITE_EXCEDIDO'']\<rparr>))
        ''LIMITE_EXCEDIDO'' = 1"
proof -
  have h1: "verificar_limite_categoria despesa2 400 =
     (despesa2\<lparr>l_alertas := [''LIMITE_EXCEDIDO'']\<rparr>, True)"
    by (simp add: verificar_limite_categoria_def despesa2_def cat_food_def)
  have h2: "verificar_limite_categoria (despesa2\<lparr>l_alertas := [''LIMITE_EXCEDIDO'']\<rparr>) 400 =
     (despesa2\<lparr>l_alertas := [''LIMITE_EXCEDIDO'']\<rparr>, True)"
    by (simp add: verificar_limite_categoria_def despesa2_def cat_food_def)
  have h3: "verificar_limite_categoria despesa1 0 = (despesa1, False)"
    by (simp add: verificar_limite_categoria_def despesa1_def cat_food_def)
  have h4: "count_list (l_alertas despesa2) ''LIMITE_EXCEDIDO'' \<le> 1"
    by (simp add: despesa2_def)
  from verificar_limite_categoria_correct [OF h1 h2] h1 h2 h3 h4 show ?thesis by blast
qed

text \<open>
  Claim C9. After a successful construction of a \<^verbatim>\<open>Despesa\<close> the tag \<^verbatim>\<open>ALTO_VALOR\<close> is
  present exactly when the amount given to the constructor exceeds 500. The setter of
  \<^verbatim>\<open>valor\<close> accepts every positive number, stores it, and leaves the tags as they are.
\<close>

theorem alto_valor_fixed_at_construction:
  assumes "Despesa_init u valor cat dt ds fp i = Inr d"
  shows "(''ALTO_VALOR'' \<in> set (l_alertas d) \<longleftrightarrow> valor > 500)
    \<and> l_valor d = valor
    \<and> Lancamento_set_valor d v =
           (if v \<le> 0 then Inl ValorNaoPositivo else Inr (d\<lparr>l_valor := v\<rparr>))
    \<and> (\<forall>d'. Lancamento_set_valor d v = Inr d' \<longrightarrow>
           l_valor d' = v \<and> l_alertas d' = l_alertas d
           \<and> (''ALTO_VALOR'' \<in> set (l_alertas d') \<longleftrightarrow> valor > 500))"
  using assms
  by (auto simp: Despesa_init_eq Lancamento_set_valor_def split: if_splits)

theorem alto_valor_fixed_at_construction_witness:
  "Despesa_init ''d2'' 200 cat_food (2024, 12, 10) ''Compra 2'' DEBITO None = Inr despesa2
   \<and> ''ALTO_VALOR'' \<notin> set (l_alertas despesa2)
   \<and> Lancamento_set_valor despesa2 900 = Inr (despesa2\<lparr>l_valor := 900\<rparr>)
   \<and> l_valor (despesa2\<lparr>l_valor := 900\<rparr>) = 900
   \<and> ''ALTO_VALOR'' \<notin> set (l_alertas (despesa2\<lparr>l_valor := 900\<rparr>))"
  using alto_valor_fixed_at_construction [OF despesa2_init, of 900] despesa2_init
  by simp

section \<open>Insertion into the budget\<close>

lemma vlc_snd:
  "snd (verificar_limite_categoria l t) \<longleftrightarrow>
     (\<exists>lim. c_limite_mensal (l_categoria l) = Some lim \<and> t + l_valor l > lim)"
  by (simp add: verificar_limite_categoria_def split: option.splits)

lemma vlc_fields:
  "l_classe (fst (verificar_limite_categoria l t)) = l_classe l"
  "l_id (fst (verificar_limite_categoria l t)) = l_id l"
  "l_valor (fst (verificar_limite_categoria l t)) = l_valor l"
  "l_categoria (fst (verificar_limite_categoria l t)) = l_categoria l"
  "l_data (fst (verificar_limite_categoria l t)) = l_data l"
  "l_descricao (fst (verificar_limite_categoria l t)) = l_descricao l"
  by (simp_all add: verificar_limite_categoria_def split: option.splits)

lemma alertas_despesa_eq:
  "alertas_despesa env b l =
     (fst (verificar_limite_categoria l (total_por_categoria b (l_categoria l))),
      Inr ((if ''ALTO_VALOR'' \<in> set (l_alertas l)
            then [criar_alerta_alto_valor (env 0) (l_id l) (l_valor l)] else []) @
           (case c_limite_mensal (l_categoria l) of
              None \<Rightarrow> []
            | Some limite \<Rightarrow>
                if total_por_categoria b (l_categoria l) + l_valor l > limite
                then [criar_alerta_limite_excedido
                        (env (if ''ALTO_VALOR'' \<in> set (l_alertas l) then 1 else 0))
                        (c_id (l_categoria l)) (c_nome (l_categoria l)) limite
                        (total_por_categoria b (l_categoria l) + l_valor l)]
                else [])))"
  by (simp add: alertas_despesa_def verificar_limite_categoria_def split: option.splits)

lemma registrar_eq:
  "registrar env b l gs =
     (let b2 = b\<lparr>o_lancamentos := sort_lanc (o_lancamentos b @ [l]),
                  o_alertas := o_alertas b @ gs\<rparr>;
          ds = (if saldo b2 < 0 \<and> \<not> deficit_existente b2
                then [criar_alerta_deficit (env (length gs)) (o_mes b) (o_ano b) (saldo b2)]
                else [])
      in (b2\<lparr>o_alertas := o_alertas b @ gs @ ds\<rparr>, l, Inr (gs @ ds)))"
  by (simp add: registrar_def Let_def tem_deficit_def)

lemma saldo_alertas [simp]: "saldo (b\<lparr>o_alertas := as\<rparr>) = saldo b"
  by (simp add: saldo_def total_receitas_def total_despesas_def)

lemma deficit_existente_append:
  "deficit_existente (b\<lparr>o_alertas := o_alertas b @ gs\<rparr>) \<longleftrightarrow>
     deficit_existente b \<or>
     (\<exists>a\<in>set gs. a_tipo a = DEFICIT_ORCAMENTARIO \<and> a_mes_ano a = Some (o_mes_ano b))"
  by (auto simp: deficit_existente_def o_mes_ano_def list_ex_iff)

lemma deficit_existente_lancamentos [simp]:
  "deficit_existente (b\<lparr>o_lancamentos := ls\<rparr>) = deficit_existente b"
  by (simp add: deficit_existente_def o_mes_ano_def)

lemma adicionar_lancamento_rejeitado:
  "l_mes_ano l \<noteq> o_mes_ano b \<Longrightarrow> adicionar_lancamento env b l = (b, l, Inl NaoPertence)"
  "l_mes_ano l = o_mes_ano b \<Longrightarrow> contem (o_lancamentos b) l
     \<Longrightarrow> adicionar_lancamento env b l = (b, l, Inl JaExiste)"
  by (simp_all add: adicionar_lancamento_def)

lemma adicionar_lancamento_aceito:
  assumes "l_mes_ano l = o_mes_ano b" and "\<not> contem (o_lancamentos b) l"
  shows "adicionar_lancamento env b l =
     (if l_classe l = Despesa
      then registrar env b (fst (alertas_despesa env b l))
             (case snd (alertas_despesa env b l) of Inr gs \<Rightarrow> gs | Inl e \<Rightarrow> [])
      else registrar env b l [])"
  using assms by (simp add: adicionar_lancamento_def alertas_despesa_eq)

lemma adicionar_lancamento_Inr:
  assumes "adicionar_lancamento env b l = (b', l', Inr gs)"
  shows "l_mes_ano l = o_mes_ano b \<and> \<not> contem (o_lancamentos b) l"
  using assms by (auto simp: adicionar_lancamento_def split: if_splits)

lemma contem_iff:
  "contem ls l \<longleftrightarrow>
     (\<exists>e\<in>set ls. l_id e = l_id l \<or>
        (l_data e = l_data l \<and> str_lower (l_descricao e) = str_lower (l_descricao l)))"
  by (simp add: contem_def list_ex_iff lanc_eq_def)

lemma cenario_primeira:
  "adicionar_lancamento env0 orcamento_dezembro despesa1 =
     (orcamento1, despesa1, Inr [criar_alerta_deficit (env0 0) 12 2024 (- 400)])"
  by (simp add: adicionar_lancamento_def alertas_despesa_eq registrar_eq Let_def
      orcamento_dezembro_def orcamento1_def despesa1_def cat_food_def
      l_mes_ano_def o_mes_ano_def d_month_def d_year_def contem_def
      total_por_categoria_def sort_lanc_def saldo_def total_receitas_def total_despesas_def
      deficit_existente_def verificar_limite_categoria_def)

lemma cenario_segunda:
  "adicionar_lancamento env1 orcamento1 despesa2 =
     (orcamento2, despesa2_marcada,
      Inr [criar_alerta_limite_excedido (env1 0) ''cat-food'' ''Food'' 500 600])"
  by (simp add: adicionar_lancamento_def alertas_despesa_eq registrar_eq Let_def
      orcamento_dezembro_def orcamento1_def orcamento2_def despesa1_def despesa2_def
      despesa2_marcada_def cat_food_def
      l_mes_ano_def o_mes_ano_def d_month_def d_year_def contem_def lanc_eq_def cat_eq_def
      total_por_categoria_def sort_lanc_def lanc_lt_def saldo_def total_receitas_def
      total_despesas_def deficit_existente_def verificar_limite_categoria_def
      criar_alerta_deficit_def Alerta_init_def)

lemma registrar_resultado:
  assumes "registrar env b l gs0 = (b', l', Inr gs)"
    and "\<forall>a\<in>set gs0. a_tipo a \<noteq> DEFICIT_ORCAMENTARIO"
  shows "l' = l"
    and "o_lancamentos b' = sort_lanc (o_lancamentos b @ [l])"
    and "gs = gs0 @ (if saldo b' < 0 \<and> \<not> deficit_existente b
                    then [criar_alerta_deficit (env (length gs0)) (o_mes b) (o_ano b) (saldo b')]
                    else [])"
    and "o_alertas b' = o_alertas b @ gs"
    and "o_mes b' = o_mes b" and "o_ano b' = o_ano b" and "o_id b' = o_id b"
    and "o_receitas_previstas b' = o_receitas_previstas b"
proof -
  define b2 where
    "b2 = b\<lparr>o_lancamentos := sort_lanc (o_lancamentos b @ [l]), o_alertas := o_alertas b @ gs0\<rparr>"
  define ds where
    "ds = (if saldo b2 < 0 \<and> \<not> deficit_existente b
           then [criar_alerta_deficit (env (length gs0)) (o_mes b) (o_ano b) (saldo b2)] else [])"
  have de: "deficit_existente b2 = deficit_existente b"
    using assms(2) by (auto simp: b2_def deficit_existente_def o_mes_ano_def list_ex_iff)
  have r: "registrar env b l gs0 = (b2\<lparr>o_alertas := o_alertas b @ gs0 @ ds\<rparr>, l, Inr (gs0 @ ds))"
    by (simp add: registrar_eq Let_def b2_def [symmetric] de ds_def)
  from assms(1) have b': "b' = b2\<lparr>o_alertas := o_alertas b @ gs0 @ ds\<rparr>"
    and l': "l' = l" and gs: "gs = gs0 @ ds"
    unfolding r by auto
  have sb: "saldo b' = saldo b2"
    unfolding b' by (simp add: saldo_def total_receitas_def total_despesas_def)
  show "l' = l" by (rule l')
  show "o_lancamentos b' = sort_lanc (o_lancamentos b @ [l])" unfolding b' b2_def by simp
  show "gs = gs0 @ (if saldo b' < 0 \<and> \<not> deficit_existente b
                    then [criar_alerta_deficit (env (length gs0)) (o_mes b) (o_ano b) (saldo b')]
                    else [])"
    unfolding sb gs ds_def ..
  show "o_alertas b' = o_alertas b @ gs" unfolding b' gs by simp
  show "o_mes b' = o_mes b" "o_ano b' = o_ano b" "o_id b' = o_id b"
    "o_receitas_previstas b' = o_receitas_previstas b"
    unfolding b' b2_def by simp_all
qed

lemma tipo_alto_valor:
  "\<forall>a\<in>set (if P then [criar_alerta_alto_valor d i v] else []).
     a_tipo a = ALTO_VALOR \<and> a_mes_ano a = None"
  by (simp add: criar_alerta_alto_valor_def Alerta_init_def)

lemma adicionar_lancamento_resultado:
  fixes env b l
  defines "T \<equiv> total_por_categoria b (l_categoria l)"
  defines "alto \<equiv> (if l_classe l = Despesa \<and> ''ALTO_VALOR'' \<in> set (l_alertas l)
                    then [criar_alerta_alto_valor (env 0) (l_id l) (l_valor l)] else [])"
  defines "gl \<equiv> (if l_classe l = Despesa
                   then (case c_limite_mensal (l_categoria l) of
                           None \<Rightarrow> []
                         | Some limite \<Rightarrow>
                             if T + l_valor l > limite
                             then [criar_alerta_limite_excedido (env (length alto))
                                     (c_id (l_categoria l)) (c_nome (l_categoria l)) limite
                                     (T + l_valor l)]
                             else [])
                   else [])"
  assumes ok: "adicionar_lancamento env b l = (b', l', Inr gs)"
  shows "l' = (if l_classe l = Despesa then fst (verificar_limite_categoria l T) else l)"
    and "o_lancamentos b' = sort_lanc (o_lancamentos b @ [l'])"
    and "gs = alto @ gl @
               (if saldo b' < 0 \<and> \<not> deficit_existente b
                then [criar_alerta_deficit (env (length (alto @ gl))) (o_mes b) (o_ano b) (saldo b')]
                else [])"
    and "o_alertas b' = o_alertas b @ gs"
    and "o_mes b' = o_mes b" and "o_ano b' = o_ano b" and "o_id b' = o_id b"
    and "o_receitas_previstas b' = o_receitas_previstas b"
proof -
  define l0 where "l0 = (if l_classe l = Despesa then fst (verificar_limite_categoria l T) else l)"
  have acc: "l_mes_ano l = o_mes_ano b" "\<not> contem (o_lancamentos b) l"
    using adicionar_lancamento_Inr [OF ok] by simp_all
  have "\<forall>a\<in>set alto. a_tipo a = ALTO_VALOR \<and> a_mes_ano a = None"
    unfolding alto_def by (rule tipo_alto_valor)
  moreover have "\<forall>a\<in>set gl. a_tipo a = LIMITE_EXCEDIDO \<and> a_mes_ano a = None
      \<and> a_lancamento_id a = None \<and> a_categoria_id a = Some (c_id (l_categoria l))"
  proof (cases "l_classe l = Despesa")
    case True
    show ?thesis
      unfolding gl_def if_P [OF True]
      by (cases "c_limite_mensal (l_categoria l)")
         (simp_all add: criar_alerta_limite_excedido_def Alerta_init_def)
  next
    case False
    show ?thesis
      unfolding gl_def if_not_P [OF False] by simp
  qed
  ultimately have tipos: "\<forall>a\<in>set (alto @ gl). a_tipo a \<noteq> DEFICIT_ORCAMENTARIO"
    by auto
  have "adicionar_lancamento env b l = registrar env b l0 (alto @ gl)"
  proof (cases "l_classe l = Despesa")
    case True
    then show ?thesis
      unfolding adicionar_lancamento_aceito [OF acc] alertas_despesa_eq gl_def alto_def T_def l0_def
      by (simp split: option.split)
  next
    case False
    then show ?thesis
      unfolding adicionar_lancamento_aceito [OF acc] gl_def alto_def T_def l0_def
      by simp
  qed
  with ok have reg: "registrar env b l0 (alto @ gl) = (b', l', Inr gs)" by simp
  note res = registrar_resultado [OF reg tipos]
  show "l' = (if l_classe l = Despesa then fst (verificar_limite_categoria l T) else l)"
    using res(1) by (simp add: l0_def)
  show "o_lancamentos b' = sort_lanc (o_lancamentos b @ [l'])"
    using res(1,2) by simp
  show "gs = alto @ gl @
               (if saldo b' < 0 \<and> \<not> deficit_existente b
                then [criar_alerta_deficit (env (length (alto @ gl))) (o_mes b) (o_ano b) (saldo b')]
                else [])"
    using res(3) by simp
  show "o_alertas b' = o_alertas b @ gs" by (rule res(4))
  show "o_mes b' = o_mes b" by (rule res(5))
  show "o_ano b' = o_ano b" by (rule res(6))
  show "o_id b' = o_id b" by (rule res(7))
  show "o_receitas_previstas b' = o_receitas_previstas b" by (rule res(8))
qed

text \<open>
  Claim C2. When the month and year of the entry differ from the budget's, or some held
  entry equals the entry (same identifier, or same date and same description up to case),
  \<^verbatim>\<open>adicionar_lancamento\<close> raises the \<^verbatim>\<open>ValueError\<close> of the failed check and leaves the
  budget, hence its entry collection and its alert log, and the entry as they were.
\<close>

theorem adicionar_lancamento_rejeita_sem_mutar:
  assumes "l_mes_ano l \<noteq> (o_mes b, o_ano b) \<or>
           (\<exists>e\<in>set (o_lancamentos b). l_id e = l_id l \<or>
              (l_data e = l_data l \<and> str_lower (l_descricao e) = str_lower (l_descricao l)))"
  shows "(adicionar_lancamento env b l = (b, l, Inl NaoPertence)
          \<or> adicionar_lancamento env b l = (b, l, Inl JaExiste))
       \<and> o_lancamentos (fst (adicionar_lancamento env b l)) = o_lancamentos b
       \<and> o_alertas (fst (adicionar_lancamento env b l)) = o_alertas b"
proof (cases "l_mes_ano l = o_mes_ano b")
  case False
  then show ?thesis by (simp add: adicionar_lancamento_rejeitado)
next
  case True
  with assms have "contem (o_lancamentos b) l"
    by (simp add: contem_iff o_mes_ano_def)
  with True show ?thesis by (simp add: adicionar_lancamento_rejeitado)
qed

lemma lower_compra: "str_lower ''COMPRA 1'' = str_lower ''Compra 1''"
  by code_simp

theorem adicionar_lancamento_rejeita_sem_mutar_witness:
  "l_mes_ano despesa_nov \<noteq> (o_mes orcamento_dezembro, o_ano orcamento_dezembro)
   \<and> adicionar_lancamento env0 orcamento_dezembro despesa_nov =
       (orcamento_dezembro, despesa_nov, Inl NaoPertence)
   \<and> l_id despesa1 \<noteq> l_id despesa_dup
   \<and> adicionar_lancamento env1 orcamento1 despesa_dup = (orcamento1, despesa_dup, Inl JaExiste)
   \<and> o_lancamentos (fst (adicionar_lancamento env1 orcamento1 despesa_dup)) = [despesa1]
   \<and> o_alertas (fst (adicionar_lancamento env1 orcamento1 despesa_dup)) = o_alertas orcamento1"
proof -
  have h1: "l_mes_ano despesa_nov \<noteq> (o_mes orcamento_dezembro, o_ano orcamento_dezembro)"
    by (simp add: l_mes_ano_def despesa_nov_def orcamento_dezembro_def d_month_def d_year_def)
  have h1d: "l_mes_ano despesa_nov \<noteq> (o_mes orcamento_dezembro, o_ano orcamento_dezembro) \<or>
           (\<exists>e\<in>set (o_lancamentos orcamento_dezembro). l_id e = l_id despesa_nov \<or>
              (l_data e = l_data despesa_nov
               \<and> str_lower (l_descricao e) = str_lower (l_descricao despesa_nov)))"
    using h1 by simp
  have m: "l_mes_ano despesa_dup = o_mes_ano orcamento1"
    by (simp add: l_mes_ano_def despesa_dup_def despesa1_def orcamento1_def
        orcamento_dezembro_def o_mes_ano_def d_month_def d_year_def)
  have e: "l_data despesa1 = l_data despesa_dup
      \<and> str_lower (l_descricao despesa1) = str_lower (l_descricao despesa_dup)"
    by (simp add: despesa_dup_def despesa1_def lower_compra)
  have ls: "o_lancamentos orcamento1 = [despesa1]"
    by (simp add: orcamento1_def)
  have h2: "l_mes_ano despesa_dup \<noteq> (o_mes orcamento1, o_ano orcamento1) \<or>
           (\<exists>e\<in>set (o_lancamentos orcamento1). l_id e = l_id despesa_dup \<or>
              (l_data e = l_data despesa_dup
               \<and> str_lower (l_descricao e) = str_lower (l_descricao despesa_dup)))"
    using e by (simp add: ls)
  have c: "contem (o_lancamentos orcamento1) despesa_dup"
    using e by (simp add: contem_iff ls)
  have i: "l_id despesa1 \<noteq> l_id despesa_dup"
    by (simp add: despesa_dup_def despesa1_def)
  from adicionar_lancamento_rejeita_sem_mutar [OF h1d, of env0]
    adicionar_lancamento_rejeita_sem_mutar [OF h2, of env1]
    adicionar_lancamento_rejeitado(1) [of despesa_nov orcamento_dezembro env0]
    adicionar_lancamento_rejeitado(2) [OF m c, of env1] h1 i ls
  show ?thesis by (simp add: o_mes_ano_def)
qed

section \<open>The alerts generated by an insertion\<close>

lemma sum_insort_lanc:
  "sum_list (map f (filter P (insort_lanc x ys))) =
     (if P x then f x else (0::real)) + sum_list (map f (filter P ys))"
  by (induction ys) auto

lemma sum_sort_lanc_foldl:
  "sum_list (map f (filter P (foldl (\<lambda>acc x. insort_lanc x acc) acc xs))) =
     sum_list (map f (filter P acc)) + (sum_list (map f (filter P xs)) :: real)"
proof (induction xs arbitrary: acc)
  case Nil
  then show ?case by simp
next
  case (Cons x xs)
  show ?case
    unfolding foldl_Cons Cons.IH sum_insort_lanc by simp
qed

lemma sum_sort_lanc:
  "sum_list (map f (filter P (sort_lanc xs))) = (sum_list (map f (filter P xs)) :: real)"
  by (simp add: sort_lanc_def sum_sort_lanc_foldl)

lemma saldo_apos_insercao:
  assumes "o_lancamentos b' = sort_lanc (o_lancamentos b @ [l'])"
  shows "saldo b' = saldo b + (if l_classe l' = Receita then l_valor l' else - l_valor l')"
  using assms
  by (cases "l_classe l'")
     (simp_all add: saldo_def total_receitas_def total_despesas_def sum_sort_lanc)

lemma adicionar_lancamento_Inl:
  "adicionar_lancamento env b l = (b', l', Inl e) \<Longrightarrow> b' = b"
  by (auto simp: adicionar_lancamento_def alertas_despesa_eq registrar_eq Let_def
      split: if_splits)

lemma deficit_existente_iff: "deficit_existente b \<longleftrightarrow> 0 < n_deficit b"
  by (simp add: deficit_existente_def n_deficit_def list_ex_iff filter_empty_conv)

lemma adicionar_lancamento_gerados_campos:
  assumes ok: "adicionar_lancamento env b l = (b', l', Inr gs)"
    and a: "a \<in> set gs"
  shows "(a_tipo a = ALTO_VALOR \<and> a_mes_ano a = None)
       \<or> (a_tipo a = LIMITE_EXCEDIDO \<and> a_mes_ano a = None \<and> a_lancamento_id a = None
            \<and> a_categoria_id a = Some (c_id (l_categoria l)))
       \<or> (a_tipo a = DEFICIT_ORCAMENTARIO \<and> \<not> deficit_existente b
            \<and> gs = butlast gs @ [a] \<and> a \<notin> set (butlast gs))"
proof -
  define ga where "ga = (if l_classe l = Despesa \<and> ''ALTO_VALOR'' \<in> set (l_alertas l)
                    then [criar_alerta_alto_valor (env 0) (l_id l) (l_valor l)] else [])"
  define T where "T = total_por_categoria b (l_categoria l)"
  define gl where "gl = (if l_classe l = Despesa
                   then (case c_limite_mensal (l_categoria l) of
                           None \<Rightarrow> []
                         | Some limite \<Rightarrow>
                             if T + l_valor l > limite
                             then [criar_alerta_limite_excedido (env (length ga))
                                     (c_id (l_categoria l)) (c_nome (l_categoria l)) limite
                                     (T + l_valor l)]
                             else [])
                   else [])"
  define gd where "gd = (if saldo b' < 0 \<and> \<not> deficit_existente b
                then [criar_alerta_deficit (env (length (ga @ gl))) (o_mes b) (o_ano b) (saldo b')]
                else [])"
  have gs: "gs = ga @ gl @ gd"
    unfolding ga_def gl_def gd_def T_def by (rule adicionar_lancamento_resultado(3) [OF ok])
  have pa: "\<forall>x\<in>set ga. a_tipo x = ALTO_VALOR \<and> a_mes_ano x = None"
    unfolding ga_def by (rule tipo_alto_valor)
  have pl: "\<forall>x\<in>set gl. a_tipo x = LIMITE_EXCEDIDO \<and> a_mes_ano x = None
      \<and> a_lancamento_id x = None \<and> a_categoria_id x = Some (c_id (l_categoria l))"
  proof (cases "l_classe l = Despesa")
    case True
    show ?thesis
      unfolding gl_def if_P [OF True]
      by (cases "c_limite_mensal (l_categoria l)")
         (simp_all add: criar_alerta_limite_excedido_def Alerta_init_def)
  next
    case False
    show ?thesis
      unfolding gl_def if_not_P [OF False] by simp
  qed
  have pd: "\<forall>x\<in>set gd. a_tipo x = DEFICIT_ORCAMENTARIO \<and> \<not> deficit_existente b \<and> gd = [x]"
    unfolding gd_def by (simp add: criar_alerta_deficit_def Alerta_init_def)
  from a gs consider "a \<in> set ga" | "a \<in> set gl" | "a \<in> set gd" by auto
  then show ?thesis
  proof cases
    case 1
    with pa show ?thesis by simp
  next
    case 2
    with pl show ?thesis by simp
  next
    case 3
    with pd have d: "a_tipo a = DEFICIT_ORCAMENTARIO" "\<not> deficit_existente b" "gd = [a]"
      by simp_all
    have g: "gs = (ga @ gl) @ [a]" using gs d(3) by simp
    have bl: "butlast gs = ga @ gl" unfolding g by (rule butlast_snoc)
    have "a \<notin> set (ga @ gl)" using pa pl d(1) by auto
    then have "a \<notin> set (butlast gs)" unfolding bl .
    moreover have "gs = butlast gs @ [a]" unfolding bl by (rule g)
    ultimately show ?thesis using d(1,2) by blast
  qed
qed

lemma n_deficit_passo:
  assumes "n_deficit b \<le> 1"
  shows "n_deficit (fst (adicionar_lancamento env b l)) \<le> 1"
proof (cases "adicionar_lancamento env b l")
  case (fields b' l' r)
  show ?thesis
  proof (cases r)
    case (Inl e)
    with fields have "b' = b" by (simp add: adicionar_lancamento_Inl)
    with fields assms show ?thesis by simp
  next
    case (Inr gs)
    with fields have ok: "adicionar_lancamento env b l = (b', l', Inr gs)" by simp
    note res = adicionar_lancamento_resultado [OF ok]
    let ?D = "\<lambda>a. a_tipo a = DEFICIT_ORCAMENTARIO \<and> a_mes_ano a = Some (o_mes_ano b)"
    have ma: "o_mes_ano b' = o_mes_ano b" by (simp add: o_mes_ano_def res(5,6))
    have n: "n_deficit b' = n_deficit b + length (filter ?D gs)"
      by (simp add: n_deficit_def ma res(4))
    show ?thesis
    proof (cases "filter ?D gs = []")
      case True
      with n assms fields show ?thesis by simp
    next
      case False
      then obtain a where a: "a \<in> set gs" "?D a"
        by (auto simp: filter_empty_conv)
      from adicionar_lancamento_gerados_campos [OF ok a(1)] a(2)
      have nd: "\<not> deficit_existente b" and sp: "gs = butlast gs @ [a]"
        and nb: "a \<notin> set (butlast gs)" by auto
      have "\<forall>x\<in>set (butlast gs). \<not> ?D x"
      proof
        fix x assume x: "x \<in> set (butlast gs)"
        then have xs: "x \<in> set gs" by (rule in_set_butlastD)
        show "\<not> ?D x"
        proof
          assume dx: "?D x"
          from adicionar_lancamento_gerados_campos [OF ok xs] dx
          have "gs = butlast gs @ [x]" by auto
          with sp have "x = a" by (metis append1_eq_conv)
          with x nb show False by simp
        qed
      qed
      then have "filter ?D (butlast gs) = []" by (simp add: filter_empty_conv)
      then have "length (filter ?D gs) = 1"
        using a(2) by (subst sp) simp
      moreover from nd have "n_deficit b = 0" by (simp add: deficit_existente_iff)
      ultimately show ?thesis using n fields by simp
    qed
  qed
qed

lemma n_deficit_todos:
  "n_deficit b \<le> 1 \<Longrightarrow> n_deficit (adicionar_todos b calls) \<le> 1"
proof (induction calls arbitrary: b)
  case Nil
  then show ?case by simp
next
  case (Cons c calls)
  obtain env l where c: "c = (env, l)" by (cases c)
  from Cons.prems have "n_deficit (fst (adicionar_lancamento env b l)) \<le> 1"
    by (rule n_deficit_passo)
  from Cons.IH [OF this] show ?case unfolding c by simp
qed

lemma OrcamentoMensal_init_eq:
  "OrcamentoMensal_init u m a rp i = Inr b \<Longrightarrow>
     o_lancamentos b = [] \<and> o_alertas b = [] \<and> o_mes b = m \<and> o_ano b = a
     \<and> 1 \<le> m \<and> m \<le> 12 \<and> 1900 \<le> a \<and> a \<le> 2100"
  by (auto simp: OrcamentoMensal_init_def split: if_splits)

text \<open>
  Claim C3. Whatever the sequence of calls of \<^verbatim>\<open>adicionar_lancamento\<close>, on a budget whose
  log holds at most one deficit alert for its own month and year, and so on every newly
  constructed budget, the log never holds more than one such alert.
\<close>

theorem no_maximo_um_alerta_deficit:
  "(n_deficit b \<le> 1 \<longrightarrow> n_deficit (adicionar_todos b calls) \<le> 1)
   \<and> (\<forall>u m a rp i b0. OrcamentoMensal_init u m a rp i = Inr b0 \<longrightarrow>
         n_deficit (adicionar_todos b0 calls) \<le> 1)"
proof -
  have "n_deficit b0 \<le> 1" if "OrcamentoMensal_init u m a rp i = Inr b0" for u m a rp i b0
    using OrcamentoMensal_init_eq [OF that] by (simp add: n_deficit_def)
  then show ?thesis by (blast intro: n_deficit_todos)
qed

lemma orcamento_dezembro_init:
  "OrcamentoMensal_init ''orc-12'' 12 2024 5000 None = Inr orcamento_dezembro"
  by (simp add: OrcamentoMensal_init_def orcamento_dezembro_def id_or_uuid_def)

lemma cenario_todos:
  "adicionar_todos orcamento_dezembro [(env0, despesa1), (env1, despesa2)] = orcamento2"
  by (simp add: cenario_primeira cenario_segunda)

theorem no_maximo_um_alerta_deficit_witness:
  "OrcamentoMensal_init ''orc-12'' 12 2024 5000 None = Inr orcamento_dezembro
   \<and> adicionar_todos orcamento_dezembro [(env0, despesa1), (env1, despesa2)] = orcamento2
   \<and> saldo orcamento2 = - 600
   \<and> n_deficit orcamento2 = 1
   \<and> n_deficit (adicionar_todos orcamento_dezembro [(env0, despesa1), (env1, despesa2)]) \<le> 1"
proof -
  have s: "saldo orcamento2 = - 600"
    by (simp add: saldo_def total_receitas_def total_despesas_def orcamento2_def
        despesa1_def despesa2_marcada_def despesa2_def)
  have n: "n_deficit orcamento2 = 1"
    by (simp add: n_deficit_def orcamento2_def orcamento1_def orcamento_dezembro_def
        o_mes_ano_def criar_alerta_deficit_def criar_alerta_limite_excedido_def Alerta_init_def)
  from no_maximo_um_alerta_deficit
         [of orcamento_dezembro "[(env0, despesa1), (env1, despesa2)]"]
    orcamento_dezembro_init cenario_todos s n
  show ?thesis by simp
qed

text \<open>
  Claim C10. Every alert of kind \<^verbatim>\<open>LIMITE_EXCEDIDO\<close> that \<^verbatim>\<open>adicionar_lancamento\<close> returns
  carries the identifier of the category of the entry as \<^verbatim>\<open>categoria_id\<close>, and neither a
  \<^verbatim>\<open>lancamento_id\<close> nor a \<^verbatim>\<open>mes_ano\<close>; the factory sets no other link.
\<close>

theorem alerta_limite_excedido_liga_so_a_categoria:
  "(\<forall>b' l' gs a. adicionar_lancamento env b l = (b', l', Inr gs) \<and> a \<in> set gs
        \<and> a_tipo a = LIMITE_EXCEDIDO \<longrightarrow>
      a_categoria_id a = Some (c_id (l_categoria l)) \<and> a_lancamento_id a = None
      \<and> a_mes_ano a = None)
   \<and> a_categoria_id (criar_alerta_limite_excedido draw cid nome limite tot) = Some cid
   \<and> a_lancamento_id (criar_alerta_limite_excedido draw cid nome limite tot) = None
   \<and> a_mes_ano (criar_alerta_limite_excedido draw cid nome limite tot) = None"
proof -
  have "a_categoria_id a = Some (c_id (l_categoria l)) \<and> a_lancamento_id a = None
      \<and> a_mes_ano a = None"
    if "adicionar_lancamento env b l = (b', l', Inr gs)" "a \<in> set gs"
      "a_tipo a = LIMITE_EXCEDIDO" for b' l' gs a
    using adicionar_lancamento_gerados_campos [OF that(1,2)] that(3) by auto
  then show ?thesis
    by (simp add: criar_alerta_limite_excedido_def Alerta_init_def)
qed

theorem alerta_limite_excedido_liga_so_a_categoria_witness:
  "adicionar_lancamento env1 orcamento1 despesa2 =
     (orcamento2, despesa2_marcada,
      Inr [criar_alerta_limite_excedido (env1 0) ''cat-food'' ''Food'' 500 600])
   \<and> a_tipo (criar_alerta_limite_excedido (env1 0) ''cat-food'' ''Food'' 500 600) = LIMITE_EXCEDIDO
   \<and> a_categoria_id (criar_alerta_limite_excedido (env1 0) ''cat-food'' ''Food'' 500 600)
        = Some (c_id (l_categoria despesa2))
   \<and> a_lancamento_id (criar_alerta_limite_excedido (env1 0) ''cat-food'' ''Food'' 500 600) = None
   \<and> a_mes_ano (criar_alerta_limite_excedido (env1 0) ''cat-food'' ''Food'' 500 600) = None"
proof -
  have t: "a_tipo (criar_alerta_limite_excedido (env1 0) ''cat-food'' ''Food'' 500 600)
             = LIMITE_EXCEDIDO"
    by (simp add: criar_alerta_limite_excedido_def Alerta_init_def)
  from alerta_limite_excedido_liga_so_a_categoria [of env1 orcamento1 despesa2]
    cenario_segunda t
  show ?thesis by (simp add: despesa2_def cat_food_def)
qed

text \<open>
  Claim C1, as stated, fails on its last sentence. A newly constructed budget for
  December 2024 receives the expense of 400 in the category ``Food'' (limit 500): the
  balance after the insertion is \<open>-400\<close> and the log holds no deficit alert, so the first
  insertion returns one alert of kind \<^verbatim>\<open>DEFICIT_ORCAMENTARIO\<close>, not the empty list.
\<close>

theorem primeira_insercao_retorna_alerta_deficit:
  "OrcamentoMensal_init ''orc-12'' 12 2024 5000 None = Inr orcamento_dezembro
   \<and> Despesa_init ''d1'' 400 cat_food (2024, 12, 5) ''Compra 1'' DEBITO None = Inr despesa1
   \<and> adicionar_lancamento env0 orcamento_dezembro despesa1 =
       (orcamento1, despesa1, Inr [criar_alerta_deficit (env0 0) 12 2024 (- 400)])
   \<and> o_lancamentos orcamento1 = [despesa1]
   \<and> snd (snd (adicionar_lancamento env0 orcamento_dezembro despesa1)) \<noteq> Inr []"
  by (simp add: orcamento_dezembro_init despesa1_init cenario_primeira) (simp add: orcamento1_def)

text \<open>
  Claim C1, amended. For every \<^verbatim>\<open>Despesa\<close> that \<^verbatim>\<open>adicionar_lancamento\<close> accepts, the list
  returned is, in this order: an alert of high value exactly when the entry carries the
  tag \<^verbatim>\<open>ALTO_VALOR\<close>; an alert of exceeded limit exactly when
  \<^verbatim>\<open>verificar_limite_categoria\<close> returns \<^verbatim>\<open>True\<close> on the total, before the insertion, of the
  held entries whose category equals the entry's, the alert carrying the limit and that
  total plus the amount of the entry; a deficit alert exactly when the balance after the
  insertion (the balance before minus the amount) is negative and the log holds no deficit
  alert for the budget's month and year. On a new budget for December 2024 the expense of
  400 in ``Food'' (limit 500) returns exactly one deficit alert, and the expense of 200 in
  ``Food'' then returns exactly one alert of exceeded limit, with limit 500 and total 600.
\<close>

theorem adicionar_lancamento_alertas_em_ordem:
  "(\<forall>b' l' gs. l_classe l = Despesa \<and> adicionar_lancamento env b l = (b', l', Inr gs) \<longrightarrow>
      (\<exists>ga gl gd.
         gs = ga @ gl @ gd
         \<and> ga = (if ''ALTO_VALOR'' \<in> set (l_alertas l)
                 then [criar_alerta_alto_valor (env 0) (l_id l) (l_valor l)] else [])
         \<and> (if snd (verificar_limite_categoria l (total_por_categoria b (l_categoria l)))
             then \<exists>limite. c_limite_mensal (l_categoria l) = Some limite
                    \<and> gl = [criar_alerta_limite_excedido (env (length ga))
                              (c_id (l_categoria l)) (c_nome (l_categoria l)) limite
                              (total_por_categoria b (l_categoria l) + l_valor l)]
             else gl = [])
         \<and> gd = (if saldo b' < 0 \<and> \<not> deficit_existente b
                 then [criar_alerta_deficit (env (length (ga @ gl))) (o_mes b) (o_ano b) (saldo b')]
                 else []))
      \<and> saldo b' = saldo b - l_valor l
      \<and> o_alertas b' = o_alertas b @ gs)
   \<and> adicionar_lancamento env0 orcamento_dezembro despesa1 =
       (orcamento1, despesa1, Inr [criar_alerta_deficit (env0 0) 12 2024 (- 400)])
   \<and> adicionar_lancamento env1 orcamento1 despesa2 =
       (orcamento2, despesa2_marcada,
        Inr [criar_alerta_limite_excedido (env1 0) ''cat-food'' ''Food'' 500 600])"
proof -
  have geral: "(\<exists>ga gl gd.
         gs = ga @ gl @ gd
         \<and> ga = (if ''ALTO_VALOR'' \<in> set (l_alertas l)
                 then [criar_alerta_alto_valor (env 0) (l_id l) (l_valor l)] else [])
         \<and> (if snd (verificar_limite_categoria l (total_por_categoria b (l_categoria l)))
             then \<exists>limite. c_limite_mensal (l_categoria l) = Some limite
                    \<and> gl = [criar_alerta_limite_excedido (env (length ga))
                              (c_id (l_categoria l)) (c_nome (l_categoria l)) limite
                              (total_por_categoria b (l_categoria l) + l_valor l)]
             else gl = [])
         \<and> gd = (if saldo b' < 0 \<and> \<not> deficit_existente b
                 then [criar_alerta_deficit (env (length (ga @ gl))) (o_mes b) (o_ano b) (saldo b')]
                 else []))
      \<and> saldo b' = saldo b - l_valor l
      \<and> o_alertas b' = o_alertas b @ gs"
    if d: "l_classe l = Despesa" and ok: "adicionar_lancamento env b l = (b', l', Inr gs)"
    for b' l' gs
  proof -
    note res = adicionar_lancamento_resultado [OF ok]
    define T where "T = total_por_categoria b (l_categoria l)"
    define ga where "ga = (if ''ALTO_VALOR'' \<in> set (l_alertas l)
                 then [criar_alerta_alto_valor (env 0) (l_id l) (l_valor l)] else [])"
    define gl where "gl = (case c_limite_mensal (l_categoria l) of
                           None \<Rightarrow> []
                         | Some limite \<Rightarrow>
                             if T + l_valor l > limite
                             then [criar_alerta_limite_excedido (env (length ga))
                                     (c_id (l_categoria l)) (c_nome (l_categoria l)) limite
                                     (T + l_valor l)]
                             else [])"
    define gd where "gd = (if saldo b' < 0 \<and> \<not> deficit_existente b
                 then [criar_alerta_deficit (env (length (ga @ gl))) (o_mes b) (o_ano b) (saldo b')]
                 else [])"
    have gs: "gs = ga @ gl @ gd"
      using res(3) d unfolding ga_def gl_def gd_def T_def by simp
    have lim: "if snd (verificar_limite_categoria l T)
             then \<exists>limite. c_limite_mensal (l_categoria l) = Some limite
                    \<and> gl = [criar_alerta_limite_excedido (env (length ga))
                              (c_id (l_categoria l)) (c_nome (l_categoria l)) limite
                              (T + l_valor l)]
             else gl = []"
      unfolding vlc_snd gl_def by (cases "c_limite_mensal (l_categoria l)") simp_all
    have l': "l_classe l' = Despesa" "l_valor l' = l_valor l"
      using res(1) d by (simp_all add: vlc_fields)
    have sal: "saldo b' = saldo b - l_valor l"
      using saldo_apos_insercao [OF res(2)] l' by simp
    from gs lim sal res(4) show ?thesis
      unfolding T_def ga_def gd_def by blast
  qed
  then show ?thesis
    using cenario_primeira cenario_segunda by blast
qed

theorem adicionar_lancamento_alertas_em_ordem_witness:
  "l_classe despesa2 = Despesa
   \<and> adicionar_lancamento env1 orcamento1 despesa2 =
       (orcamento2, despesa2_marcada,
        Inr [criar_alerta_limite_excedido (env1 0) ''cat-food'' ''Food'' 500 600])
   \<and> saldo orcamento2 = saldo orcamento1 - l_valor despesa2
   \<and> o_alertas orcamento2 =
       o_alertas orcamento1 @ [criar_alerta_limite_excedido (env1 0) ''cat-food'' ''Food'' 500 600]"
proof -
  have c: "l_classe despesa2 = Despesa" by (simp add: despesa2_def)
  from adicionar_lancamento_alertas_em_ordem [of despesa2 env1 orcamento1] c cenario_segunda
  show ?thesis by blast
qed

section \<open>Reports\<close>

subsection \<open>Percentages by category\<close>

lemma map_of_dict_add:
  "map_of (dict_add d k v) =
     (map_of d)(k \<mapsto> (case map_of d k of None \<Rightarrow> 0 | Some t \<Rightarrow> t) + v)"
  by (induction d k v rule: dict_add.induct) (auto simp: fun_eq_iff)

lemma keys_dict_add:
  "set (map fst (dict_add d k v)) = insert k (set (map fst d))"
  by (induction d k v rule: dict_add.induct) auto

lemma distinct_dict_add:
  "distinct (map fst d) \<Longrightarrow> distinct (map fst (dict_add d k v))"
proof (induction d k v rule: dict_add.induct)
  case (1 k v)
  then show ?case by simp
next
  case (2 k' t rest k v)
  then show ?case
    using keys_dict_add [of rest k v] by auto
qed

lemma distinct_despesas_loop:
  "distinct (map fst totais) \<Longrightarrow> distinct (map fst (despesas_loop ls totais))"
  by (induction ls arbitrary: totais) (simp_all add: distinct_dict_add)

lemma map_of_despesas_loop:
  "map_of (despesas_loop ls totais) cat =
     (if \<exists>l\<in>set ls. l_classe l = Despesa \<and> c_nome (l_categoria l) = cat
      then Some ((case map_of totais cat of None \<Rightarrow> 0 | Some t \<Rightarrow> t) +
                 sum_list (map l_valor
                   (filter (\<lambda>l. l_classe l = Despesa \<and> c_nome (l_categoria l) = cat) ls)))
      else map_of totais cat)"
proof (induction ls arbitrary: totais)
  case Nil
  then show ?case by simp
next
  case (Cons l ls)
  show ?case
  proof (cases "l_classe l = Despesa")
    case False
    then show ?thesis by (auto simp: Cons.IH)
  next
    case True
    then show ?thesis
      by (auto simp: Cons.IH map_of_dict_add split: option.split)
  qed
qed

lemma percentual_items_ok:
  "tot \<noteq> 0 \<Longrightarrow>
     percentual_items d tot = Inr (map (\<lambda>(cat, valor). (cat, valor / tot * 100)) d)"
  by (induction d tot rule: percentual_items.induct) (simp_all add: py_truediv_def)

lemma map_of_map_valor:
  "map_of (map (\<lambda>(cat, valor). (cat, f valor)) d) cat = map_option f (map_of d cat)"
  by (induction d) auto

lemma cenario_percentual_lancamentos:
  "o_lancamentos
     (adicionar_todos orcamento_dezembro [(env0, despesa_food), (env1, despesa_transport)]) =
   [despesa_food, despesa_transport]"
  by (simp add: adicionar_lancamento_def alertas_despesa_eq registrar_eq Let_def
      orcamento_dezembro_def despesa_food_def despesa_transport_def cat_food_def
      cat_transport_def l_mes_ano_def o_mes_ano_def d_month_def d_year_def contem_def
      lanc_eq_def cat_eq_def str_lower_def total_por_categoria_def sort_lanc_def lanc_lt_def
      saldo_def total_receitas_def total_despesas_def deficit_existente_def
      verificar_limite_categoria_def criar_alerta_deficit_def Alerta_init_def)

text \<open>
  Claim C6. \<^verbatim>\<open>percentual_por_categoria\<close> always returns a dictionary and never raises
  \<^verbatim>\<open>ZeroDivisionError\<close>: it is empty when the total of the expenses is zero, and otherwise
  it has one key for each category name that has an expense, mapped to the total of the
  expenses of that name divided by the total of all expenses, times 100. Expenses of 300
  in ``Food'' and 100 in ``Transport'' give 75 and 25.
\<close>

theorem percentual_por_categoria_correct:
  "(total_despesas b = 0 \<longrightarrow> percentual_por_categoria b = Inr [])
   \<and> (\<exists>items. percentual_por_categoria b = Inr items
        \<and> distinct (map fst items)
        \<and> (\<forall>cat. map_of items cat =
              (if total_despesas b \<noteq> 0
                  \<and> (\<exists>l\<in>set (o_lancamentos b).
                         l_classe l = Despesa \<and> c_nome (l_categoria l) = cat)
               then Some (sum_list (map l_valor
                            (filter (\<lambda>l. l_classe l = Despesa \<and> c_nome (l_categoria l) = cat)
                               (o_lancamentos b)))
                          / total_despesas b * 100)
               else None)))
   \<and> percentual_por_categoria
        (adicionar_todos orcamento_dezembro [(env0, despesa_food), (env1, despesa_transport)])
       = Inr [(''Food'', 75), (''Transport'', 25)]"
proof (intro conjI)
  show "total_despesas b = 0 \<longrightarrow> percentual_por_categoria b = Inr []"
    by (simp add: percentual_por_categoria_def)
next
  show "\<exists>items. percentual_por_categoria b = Inr items
        \<and> distinct (map fst items)
        \<and> (\<forall>cat. map_of items cat =
              (if total_despesas b \<noteq> 0
                  \<and> (\<exists>l\<in>set (o_lancamentos b).
                         l_classe l = Despesa \<and> c_nome (l_categoria l) = cat)
               then Some (sum_list (map l_valor
                            (filter (\<lambda>l. l_classe l = Despesa \<and> c_nome (l_categoria l) = cat)
                               (o_lancamentos b)))
                          / total_despesas b * 100)
               else None))"
  proof (cases "total_despesas b = 0")
    case True
    then show ?thesis by (simp add: percentual_por_categoria_def)
  next
    case False
    let ?d = "despesas_por_categoria b"
    let ?items = "map (\<lambda>(cat, valor). (cat, valor / total_despesas b * 100)) ?d"
    have r: "percentual_por_categoria b = Inr ?items"
      using False by (simp add: percentual_por_categoria_def percentual_items_ok)
    have k: "map fst ?items = map fst ?d"
      by (simp add: case_prod_unfold comp_def)
    have "distinct (map fst ?d)"
      unfolding despesas_por_categoria_def by (rule distinct_despesas_loop) simp
    then have dist: "distinct (map fst ?items)"
      by (simp only: k)
    have m: "map_of ?items cat =
              (if (\<exists>l\<in>set (o_lancamentos b).
                         l_classe l = Despesa \<and> c_nome (l_categoria l) = cat)
               then Some (sum_list (map l_valor
                            (filter (\<lambda>l. l_classe l = Despesa \<and> c_nome (l_categoria l) = cat)
                               (o_lancamentos b)))
                          / total_despesas b * 100)
               else None)" for cat
      unfolding map_of_map_valor despesas_por_categoria_def map_of_despesas_loop by simp
    from r dist m False show ?thesis by simp
  qed
next
  show "percentual_por_categoria
        (adicionar_todos orcamento_dezembro [(env0, despesa_food), (env1, despesa_transport)])
       = Inr [(''Food'', 75), (''Transport'', 25)]"
    unfolding percentual_por_categoria_def despesas_por_categoria_def total_despesas_def
      cenario_percentual_lancamentos
    by (simp add: despesa_food_def despesa_transport_def cat_food_def cat_transport_def
        py_truediv_def)
qed

theorem percentual_por_categoria_correct_witness:
  "total_despesas orcamento_dezembro = 0
   \<and> percentual_por_categoria orcamento_dezembro = Inr []"
proof -
  have z: "total_despesas orcamento_dezembro = 0"
    by (simp add: total_despesas_def orcamento_dezembro_def)
  from percentual_por_categoria_correct [of orcamento_dezembro] z
  show ?thesis by blast
qed

subsection \<open>Running balance by date\<close>

lemma saldo_loop_fora:
  "d \<notin> l_data ` set xs \<Longrightarrow> saldo_loop xs saldos acc d = saldos d"
  by (induction xs arbitrary: saldos acc) (auto simp: Let_def)

lemma dom_saldo_loop:
  "dom (saldo_loop xs saldos acc) = dom saldos \<union> l_data ` set xs"
  by (induction xs arbitrary: saldos acc) (auto simp: Let_def)

lemma saldo_loop_ultimo:
  assumes "l_data l \<notin> l_data ` set zs"
  shows "saldo_loop (ys @ l # zs) saldos acc (l_data l) = Some (saldo_acumulado acc (ys @ [l]))"
proof (induction ys arbitrary: saldos acc)
  case Nil
  show ?case using assms by (simp add: Let_def saldo_loop_fora)
next
  case (Cons y ys)
  show ?case by (simp add: Let_def Cons.IH)
qed

lemma filter_ate_ultimo:
  fixes f :: "'a \<Rightarrow> 'k::linorder"
  assumes "sorted (map f (ys @ l # zs))" and "f l \<notin> f ` set zs"
  shows "filter (\<lambda>x. f x \<le> f l) (ys @ l # zs) = ys @ [l]"
proof -
  from assms(1) have a: "\<forall>y\<in>set ys. f y \<le> f l" and b: "\<forall>z\<in>set zs. f l \<le> f z"
    by (auto simp: sorted_append)
  have "\<forall>z\<in>set zs. \<not> f z \<le> f l"
  proof
    fix z assume z: "z \<in> set zs"
    with b have "f l \<le> f z" by simp
    moreover from z assms(2) have "f l \<noteq> f z" by auto
    ultimately show "\<not> f z \<le> f l" by simp
  qed
  with a show ?thesis by simp
qed

text \<open>
  Claim C7. \<^verbatim>\<open>saldo_por_dia\<close> replays the held entries in date order (the replayed list is
  sorted by date and is a permutation of the held entries). Its keys are exactly the dates
  of the held entries, one key for each date however many entries share it, and each date
  maps to the cumulative balance, income added and expense subtracted, after the last
  entry of that date: the balance over all entries dated up to it.
\<close>

theorem saldo_por_dia_correct:
  "dom (saldo_por_dia b) = l_data ` set (o_lancamentos b)
   \<and> sorted (map l_data (sort_key l_data (o_lancamentos b)))
   \<and> mset (sort_key l_data (o_lancamentos b)) = mset (o_lancamentos b)
   \<and> (\<forall>ys l zs. sort_key l_data (o_lancamentos b) = ys @ l # zs
          \<and> l_data l \<notin> l_data ` set zs \<longrightarrow>
        saldo_por_dia b (l_data l) = Some (saldo_acumulado 0 (ys @ [l]))
        \<and> ys @ [l] = filter (\<lambda>x. l_data x \<le> l_data l) (sort_key l_data (o_lancamentos b)))"
proof (intro conjI allI impI)
  show "dom (saldo_por_dia b) = l_data ` set (o_lancamentos b)"
    by (simp add: saldo_por_dia_def dom_saldo_loop)
  show "sorted (map l_data (sort_key l_data (o_lancamentos b)))"
    by (rule sorted_sort_key)
  show "mset (sort_key l_data (o_lancamentos b)) = mset (o_lancamentos b)"
    by (rule mset_sort)
next
  fix ys l zs
  assume h: "sort_key l_data (o_lancamentos b) = ys @ l # zs \<and> l_data l \<notin> l_data ` set zs"
  then show "saldo_por_dia b (l_data l) = Some (saldo_acumulado 0 (ys @ [l]))"
    by (simp add: saldo_por_dia_def saldo_loop_ultimo)
  have "sorted (map l_data (ys @ l # zs))"
    using sorted_sort_key [of l_data "o_lancamentos b"] h by simp
  from filter_ate_ultimo [OF this] h
  show "ys @ [l] = filter (\<lambda>x. l_data x \<le> l_data l) (sort_key l_data (o_lancamentos b))"
    by simp
qed

lemma sort_orcamento_dias:
  "sort_key l_data (o_lancamentos orcamento_dias) = [despesa1] @ receita_salary # [despesa2]"
  by (simp add: orcamento_dias_def despesa1_def receita_salary_def despesa2_def)

theorem saldo_por_dia_correct_witness:
  "sort_key l_data (o_lancamentos orcamento_dias) = [despesa1] @ receita_salary # [despesa2]
   \<and> l_data despesa1 = l_data receita_salary
   \<and> l_data receita_salary \<notin> l_data ` set [despesa2]
   \<and> saldo_por_dia orcamento_dias (2024, 12, 5) = Some 600
   \<and> dom (saldo_por_dia orcamento_dias) = {(2024, 12, 5), (2024, 12, 10)}"
proof -
  have d: "l_data despesa1 = l_data receita_salary"
    "l_data receita_salary \<notin> l_data ` set [despesa2]"
    "l_data receita_salary = (2024, 12, 5)"
    by (simp_all add: despesa1_def receita_salary_def despesa2_def)
  have a: "saldo_acumulado 0 ([despesa1] @ [receita_salary]) = 600"
    by (simp add: despesa1_def receita_salary_def)
  have s: "l_data ` set (o_lancamentos orcamento_dias) = {(2024, 12, 5), (2024, 12, 10)}"
    by (auto simp: orcamento_dias_def despesa1_def receita_salary_def despesa2_def)
  from saldo_por_dia_correct [of orcamento_dias] sort_orcamento_dias d(1,2)
  have "saldo_por_dia orcamento_dias (l_data receita_salary)
          = Some (saldo_acumulado 0 ([despesa1] @ [receita_salary]))"
    and "dom (saldo_por_dia orcamento_dias) = l_data ` set (o_lancamentos orcamento_dias)"
    by blast+
  with sort_orcamento_dias d a s show ?thesis by simp
qed

section \<open>Equality and hashing\<close>

lemma strip_FOOD: "str_strip ''FOOD'' = ''FOOD''" "str_strip ''COMPRA 1'' = ''COMPRA 1''"
  by (simp_all add: str_strip_def is_space_def)

lemma lower_FOOD: "str_lower ''FOOD'' = str_lower ''Food''"
  by code_simp

lemma Categoria_init_ok:
  "1 < length (str_strip n) \<Longrightarrow>
     Categoria_init u n t None d i =
       Inr \<lparr>c_id = id_or_uuid i u, c_nome = str_strip n, c_tipo = t, c_limite_mensal = None,
            c_descricao = d\<rparr>"
  by (auto simp: Categoria_init_def Categoria_set_nome_def Categoria_set_tipo_def
      Categoria_set_limite_mensal_def str_strip_def)

text \<open>
  Claim C8. For any hash of strings that separates two identifiers, the constructors build
  two categories that are equal (same name up to case, same kind) and hash differently,
  and two entries with different identifiers that are equal through the date and the
  description up to case and hash differently. The list containment used for duplicate
  detection finds the second entry, while no held entry has both its hash and equality
  with it, which is what a lookup by hash requires.
\<close>

theorem hash_ignora_igualdade:
  assumes "i1 \<noteq> []" and "i2 \<noteq> []" and "h i1 \<noteq> h i2"
  shows "\<exists>c1 c2 l1 l2.
      Categoria_init u1 ''Food'' DESPESA None None (Some i1) = Inr c1
    \<and> Categoria_init u2 ''FOOD'' DESPESA None None (Some i2) = Inr c2
    \<and> cat_eq c1 c2 \<and> cat_hash h c1 \<noteq> cat_hash h c2
    \<and> Despesa_init u3 400 cat_food (2024, 12, 5) ''Compra 1'' DEBITO (Some i1) = Inr l1
    \<and> Despesa_init u4 50 cat_food (2024, 12, 5) ''COMPRA 1'' DEBITO (Some i2) = Inr l2
    \<and> l_id l1 \<noteq> l_id l2 \<and> lanc_eq l1 l2 \<and> lanc_hash h l1 \<noteq> lanc_hash h l2
    \<and> contem [l1] l2
    \<and> \<not> (\<exists>e\<in>set [l1]. lanc_hash h e = lanc_hash h l2 \<and> lanc_eq e l2)"
proof -
  let ?c1 = "\<lparr>c_id = i1, c_nome = ''Food'', c_tipo = DESPESA, c_limite_mensal = None,
             c_descricao = None\<rparr>"
  let ?c2 = "\<lparr>c_id = i2, c_nome = ''FOOD'', c_tipo = DESPESA, c_limite_mensal = None,
             c_descricao = None\<rparr>"
  let ?l1 = "\<lparr>l_classe = Despesa, l_id = i1, l_valor = 400, l_categoria = cat_food,
             l_data = (2024, 12, 5), l_descricao = ''Compra 1'', l_forma_pagamento = DEBITO,
             l_alertas = []\<rparr>"
  let ?l2 = "\<lparr>l_classe = Despesa, l_id = i2, l_valor = 50, l_categoria = cat_food,
             l_data = (2024, 12, 5), l_descricao = ''COMPRA 1'', l_forma_pagamento = DEBITO,
             l_alertas = []\<rparr>"
  from assms(3) have ne: "i1 \<noteq> i2" by auto
  have c1: "Categoria_init u1 ''Food'' DESPESA None None (Some i1) = Inr ?c1"
    using assms(1) by (simp add: Categoria_init_ok strip_Food id_or_uuid_def)
  have c2: "Categoria_init u2 ''FOOD'' DESPESA None None (Some i2) = Inr ?c2"
    using assms(2) by (simp add: Categoria_init_ok strip_FOOD id_or_uuid_def)
  have ce: "cat_eq ?c1 ?c2" by (simp add: cat_eq_def lower_FOOD)
  have ch: "cat_hash h ?c1 \<noteq> cat_hash h ?c2" using assms(3) by (simp add: cat_hash_def)
  have t: "c_tipo cat_food = DESPESA" by (simp add: cat_food_def)
  have l1: "Despesa_init u3 400 cat_food (2024, 12, 5) ''Compra 1'' DEBITO (Some i1) = Inr ?l1"
    using assms(1) t by (simp add: Despesa_init_eq strip_Compra id_or_uuid_def)
  have l2: "Despesa_init u4 50 cat_food (2024, 12, 5) ''COMPRA 1'' DEBITO (Some i2) = Inr ?l2"
    using assms(2) t by (simp add: Despesa_init_eq strip_FOOD id_or_uuid_def)
  have le: "lanc_eq ?l1 ?l2" by (simp add: lanc_eq_def lower_compra)
  have lh: "lanc_hash h ?l1 \<noteq> lanc_hash h ?l2" using assms(3) by (simp add: lanc_hash_def)
  have ct: "contem [?l1] ?l2" using le by (simp add: contem_def)
  have li: "l_id ?l1 \<noteq> l_id ?l2" using ne by simp
  have nh: "\<not> (\<exists>e\<in>set [?l1]. lanc_hash h e = lanc_hash h ?l2 \<and> lanc_eq e ?l2)"
    using lh by simp
  from c1 c2 ce ch l1 l2 li le lh ct nh show ?thesis by blast
qed

theorem hash_ignora_igualdade_witness:
  "''a'' \<noteq> [] \<and> ''bb'' \<noteq> [] \<and> hash_len ''a'' \<noteq> hash_len ''bb''
   \<and> (\<exists>c1 c2 l1 l2.
      Categoria_init ''u1'' ''Food'' DESPESA None None (Some ''a'') = Inr c1
    \<and> Categoria_init ''u2'' ''FOOD'' DESPESA None None (Some ''bb'') = Inr c2
    \<and> cat_eq c1 c2 \<and> cat_hash hash_len c1 \<noteq> cat_hash hash_len c2
    \<and> Despesa_init ''u3'' 400 cat_food (2024, 12, 5) ''Compra 1'' DEBITO (Some ''a'') = Inr l1
    \<and> Despesa_init ''u4'' 50 cat_food (2024, 12, 5) ''COMPRA 1'' DEBITO (Some ''bb'') = Inr l2
    \<and> l_id l1 \<noteq> l_id l2 \<and> lanc_eq l1 l2 \<and> lanc_hash hash_len l1 \<noteq> lanc_hash hash_len l2
    \<and> contem [l1] l2
    \<and> \<not> (\<exists>e\<in>set [l1]. lanc_hash hash_len e = lanc_hash hash_len l2 \<and> lanc_eq e l2))"
proof -
  have a: "''a'' \<noteq> []" and b: "''bb'' \<noteq> []" and c: "hash_len ''a'' \<noteq> hash_len ''bb''"
    by (simp_all add: hash_len_def)
  from hash_ignora_igualdade [OF a b c, of "''u1''" "''u2''" "''u3''" "''u4''"] a b c
  show ?thesis by simp
qed


section \<open>Names and descriptions outside ASCII\<close>

text \<open>
  Lower case and surrounding blanks on the Latin-1 code points, and the two checks of the
  insertion that compare lower-cased strings: the duplicate check rejects the expense whose
  description differs from a held one only by case, and the category total counts the held
  expense whose category name differs from the new one's only by case, so the second
  expense exceeds the limit of 500 with a total of 600.
\<close>

lemma lower_latin1:
  "str_lower [CHR ''C'', CHR ''A'', CHR ''F'', CHR 0xC9] =
     [CHR ''c'', CHR ''a'', CHR ''f'', CHR 0xE9]"
  "str_lower [CHR ''C'', CHR ''a'', CHR ''f'', CHR 0xE9] =
     [CHR ''c'', CHR ''a'', CHR ''f'', CHR 0xE9]"
  "str_lower [CHR ''A'', CHR 0xC7, CHR 0xC3, CHR ''O''] =
     [CHR ''a'', CHR 0xE7, CHR 0xE3, CHR ''o'']"
  "str_lower [CHR ''A'', CHR 0xE7, CHR 0xE3, CHR ''o''] =
     [CHR ''a'', CHR 0xE7, CHR 0xE3, CHR ''o'']"
  "str_lower [CHR 0xD7, CHR 0xDF, CHR 0xFF] = [CHR 0xD7, CHR 0xDF, CHR 0xFF]"
  by code_simp+

lemma strip_latin1:
  "str_strip [CHR 0xA0, CHR ''A'', CHR 0x85] = [CHR ''A'']"
  "Categoria_init u [CHR ''A'', CHR 0xA0] t l d i = Inl NomeCurto"
  by (simp_all add: str_strip_def is_space_def Categoria_init_def Categoria_set_nome_def)

lemma cenario_cafe_primeira:
  "adicionar_lancamento env0 orcamento_dezembro despesa_cafe =
     (orcamento_cafe, despesa_cafe, Inr [criar_alerta_deficit (env0 0) 12 2024 (- 400)])"
  by (simp add: adicionar_lancamento_def alertas_despesa_eq registrar_eq Let_def
      orcamento_dezembro_def orcamento_cafe_def despesa_cafe_def cat_acao_def
      l_mes_ano_def o_mes_ano_def d_month_def d_year_def contem_def
      total_por_categoria_def sort_lanc_def saldo_def total_receitas_def total_despesas_def
      deficit_existente_def verificar_limite_categoria_def)

lemma duplicado_latin1:
  "l_id despesa_cafe \<noteq> l_id despesa_CAFE
   \<and> adicionar_lancamento env1 orcamento_cafe despesa_CAFE =
       (orcamento_cafe, despesa_CAFE, Inl JaExiste)"
  by (simp add: adicionar_lancamento_def orcamento_dezembro_def orcamento_cafe_def
      despesa_cafe_def despesa_CAFE_def l_mes_ano_def o_mes_ano_def d_month_def d_year_def
      contem_def lanc_eq_def lower_latin1)

lemma limite_latin1:
  "cat_eq cat_acao cat_ACAO
   \<and> total_por_categoria orcamento_cafe (l_categoria despesa_ACAO) = 400
   \<and> snd (snd (adicionar_lancamento env1 orcamento_cafe despesa_ACAO)) =
       Inr [criar_alerta_limite_excedido (env1 0) ''cat-acao-2''
              [CHR ''A'', CHR 0xC7, CHR 0xC3, CHR ''O''] 500 600]"
  by (simp add: adicionar_lancamento_def alertas_despesa_eq registrar_eq Let_def
      orcamento_dezembro_def orcamento_cafe_def despesa_cafe_def despesa_CAFE_def
      despesa_ACAO_def cat_acao_def cat_ACAO_def
      l_mes_ano_def o_mes_ano_def d_month_def d_year_def contem_def lanc_eq_def cat_eq_def
      lower_latin1 total_por_categoria_def sort_lanc_def lanc_lt_def saldo_def
      total_receitas_def total_despesas_def deficit_existente_def
      verificar_limite_categoria_def criar_alerta_deficit_def Alerta_init_def)

end
